theory Spec2Isabelle
  imports Main
begin

section \<open>The TrustBridge backend: confirmation tokens, ownership, uploads\<close>

text \<open>
  The repository holds two Express servers: \<^verbatim>\<open>src/unnamed/part_000\<close> (ownership checks,
  upload guard, start-up validation, link built from \<^verbatim>\<open>CONFIRM_BASE_URL\<close>) and
  \<^verbatim>\<open>src/server.js\<close> (the same routes without those additions). The handlers of the first
  keep the plain names below; those of the second end in \<open>_server_js\<close>.

  Conventions of the embedding:
  \<^item> time is \<^verbatim>\<open>Date.now()\<close>, an \<open>int\<close> of milliseconds; every clock read of a handler
    is an argument of its own;
  \<^item> every call to Supabase takes a \<open>fault\<close>: the service answers (\<open>Healthy\<close>), answers
    with an \<^verbatim>\<open>error\<close> object (\<open>Failing\<close>), or the awaited promise rejects (\<open>Rejecting\<close>);
  \<^item> a handler takes the database and the bucket as a \<open>world\<close> and returns the response
    together with the new \<open>world\<close>;
  \<^item> \<^verbatim>\<open>jsonwebtoken\<close> is modelled symbolically: a token is either a JWT that records
    the algorithm and key it was signed with and its payload, or a string that does not
    parse; SHA-256 is an argument \<open>sha256\<close> of the handlers that hash.
\<close>

subsection \<open>Tokens and responses\<close>

datatype algorithm = HS256 | HS384 | HS512 | OtherAlg

record jwt_payload =
  p_transaction_id :: string
  p_nonce :: string
  p_iat :: int
  p_exp :: "int option"

datatype token = Jwt algorithm string jwt_payload | Malformed string

text \<open>A row of the table \<^verbatim>\<open>profiles\<close>; \<open>id_profile\<close> is its column \<^verbatim>\<open>id\<close>.\<close>

record profile =
  id_profile :: string
  business_name :: string

text \<open>
  \<open>JsonReport\<close> is the body of \<^verbatim>\<open>GET /report-data\<close>: \<^verbatim>\<open>business\<close>, the three numbers of
  \<^verbatim>\<open>stats\<close> (verified transactions, total volume, trust score) and the selected columns
  \<^verbatim>\<open>amount, created_at, status\<close> of each row.
\<close>

datatype body =
    JsonError string
  | JsonMessage string
  | JsonConfirmationLink string token
  | JsonReport profile nat int nat "(int \<times> string \<times> string) list"
  | Text string

datatype response = Response nat body

fun code :: "response \<Rightarrow> nat" where
  "code (Response c b) = c"

subsection \<open>Process environment and start-up\<close>

record env =
  SUPABASE_URL :: "string option"
  SUPABASE_SERVICE_ROLE_KEY :: "string option"
  JWT_SECRET :: "string option"
  CONFIRM_BASE_URL :: "string option"

text \<open>\<^verbatim>\<open>!process.env.X\<close>: the variable is undefined or the empty string.\<close>

fun absent :: "string option \<Rightarrow> bool" where
  "absent None = True"
| "absent (Some s) = (s = [])"

definition startsWith :: "string \<Rightarrow> string \<Rightarrow> bool" where
  "startsWith s p = (take (length p) s = p)"

datatype boot = Exited nat | Listening

text \<open>part_000, lines 17-32: both guards call \<^verbatim>\<open>process.exit(1)\<close>.\<close>

definition startup :: "env \<Rightarrow> boot" where
  "startup e =
     (if absent (SUPABASE_URL e) \<or> absent (SUPABASE_SERVICE_ROLE_KEY e)
         \<or> absent (JWT_SECRET e) \<or> absent (CONFIRM_BASE_URL e)
      then Exited 1
      else (case CONFIRM_BASE_URL e of
              None \<Rightarrow> Exited 1
            | Some b \<Rightarrow> if \<not> startsWith b ''https://'' then Exited 1 else Listening))"

text \<open>
  server.js, lines 17-30: the guard is commented out. What remains is
  \<^verbatim>\<open>createClient(url, key)\<close>, which throws when either argument is missing; the
  uncaught exception ends the process with code 1.
\<close>

definition startup_server_js :: "env \<Rightarrow> boot" where
  "startup_server_js e =
     (if absent (SUPABASE_URL e) \<or> absent (SUPABASE_SERVICE_ROLE_KEY e)
      then Exited 1 else Listening)"

subsection \<open>jsonwebtoken\<close>

datatype jwt_error = JsonWebTokenError | TokenExpiredError

text \<open>
  \<^verbatim>\<open>jwt.sign({transaction_id, nonce}, secret, {expiresIn: "72h", algorithm: "HS256"})\<close>
  at clock \<open>now\<close>: \<^verbatim>\<open>iat\<close> is the clock in whole seconds, \<^verbatim>\<open>exp\<close> is 72 hours later.
  It throws when the secret has no value. (HS256 is also the default of server.js.)
\<close>

definition jwt_sign :: "string \<Rightarrow> string \<Rightarrow> string option \<Rightarrow> int \<Rightarrow> token option" where
  "jwt_sign tid nonce secret now =
     (case secret of
        None \<Rightarrow> None
      | Some k \<Rightarrow>
          if k = [] then None
          else Some (Jwt HS256 k
                 \<lparr>p_transaction_id = tid, p_nonce = nonce,
                  p_iat = now div 1000, p_exp = Some (now div 1000 + 72 * 60 * 60)\<rparr>))"

text \<open>
  \<^verbatim>\<open>jwt.verify(token, secret, {algorithms})\<close> at clock \<open>now\<close>: the token parses, its
  algorithm is an allowed one, its signature was made with \<open>secret\<close>, and the clock in
  seconds is below \<^verbatim>\<open>exp\<close> (a payload without \<^verbatim>\<open>exp\<close> skips that check).
\<close>

fun jwt_verify :: "algorithm list \<Rightarrow> string option \<Rightarrow> int \<Rightarrow> token \<Rightarrow> jwt_error + jwt_payload" where
  "jwt_verify algs secret now (Malformed s) = Inl JsonWebTokenError"
| "jwt_verify algs secret now (Jwt a k p) =
     (if absent secret then Inl JsonWebTokenError
      else if a \<notin> set algs then Inl JsonWebTokenError
      else if secret \<noteq> Some k then Inl JsonWebTokenError
      else (case p_exp p of
              None \<Rightarrow> Inr p
            | Some e \<Rightarrow> if now div 1000 \<ge> e then Inl TokenExpiredError else Inr p))"

subsection \<open>The Supabase database and bucket\<close>

text \<open>A row of the table \<^verbatim>\<open>transactions\<close>; amounts are taken as whole numbers.\<close>

record transaction =
  transaction_id :: string
  user_id :: string
  status :: string
  amount :: int
  created_at :: string
  proof_files_urls :: "(string \<times> int \<times> string) option"
  confirmation_token_hash :: "string option"
  confirmation_expires_at :: "int option"
  confirmation_used :: bool

record upload_file =
  originalname :: string
  mimetype :: string
  size_bytes :: nat

text \<open>
  A storage path \<^verbatim>\<open>`${transactionId}/${Date.now()}-${file.originalname}`\<close> is kept as
  its three parts.
\<close>

type_synonym path = "string \<times> int \<times> string"

record world =
  transactions :: "transaction list"
  proof_files :: "(path \<times> upload_file) list"

datatype fault = Healthy | Failing string | Rejecting

datatype 'a reply = Data 'a | Error string | Thrown

text \<open>\<^verbatim>\<open>.select(..).eq(..).single()\<close>: an error unless exactly one row matches.\<close>

definition select_single :: "fault \<Rightarrow> ('a \<Rightarrow> bool) \<Rightarrow> 'a list \<Rightarrow> 'a reply" where
  "select_single f P rows =
     (case f of
        Rejecting \<Rightarrow> Thrown
      | Failing m \<Rightarrow> Error m
      | Healthy \<Rightarrow> (case filter P rows of [t] \<Rightarrow> Data t | _ \<Rightarrow> Error ''PGRST116''))"

text \<open>\<^verbatim>\<open>.select(..).eq(..)\<close> without \<^verbatim>\<open>.single()\<close>: the matching rows, in any number.\<close>

definition select_rows :: "fault \<Rightarrow> ('a \<Rightarrow> bool) \<Rightarrow> 'a list \<Rightarrow> 'a list reply" where
  "select_rows f P rows =
     (case f of
        Rejecting \<Rightarrow> Thrown
      | Failing m \<Rightarrow> Error m
      | Healthy \<Rightarrow> Data (filter P rows))"

text \<open>
  \<^verbatim>\<open>.update(..).eq(..)\<close>: every matching row is rewritten; the reply carries the rewritten
  rows (what \<^verbatim>\<open>.select("transaction_id")\<close> returns). A faulting call changes nothing.
\<close>

definition update_where ::
  "fault \<Rightarrow> (transaction \<Rightarrow> bool) \<Rightarrow> (transaction \<Rightarrow> transaction) \<Rightarrow> transaction list
     \<Rightarrow> transaction list reply \<times> transaction list" where
  "update_where f P upd rows =
     (case f of
        Rejecting \<Rightarrow> (Thrown, rows)
      | Failing m \<Rightarrow> (Error m, rows)
      | Healthy \<Rightarrow> (Data (map upd (filter P rows)), map (\<lambda>r. if P r then upd r else r) rows))"

text \<open>\<^verbatim>\<open>storage.from("proof-files").upload(path, buffer, ..)\<close>: an existing path is an error.\<close>

definition storage_upload ::
  "fault \<Rightarrow> path \<Rightarrow> upload_file \<Rightarrow> (path \<times> upload_file) list \<Rightarrow> (path \<times> upload_file) list reply" where
  "storage_upload f p file files =
     (case f of
        Rejecting \<Rightarrow> Thrown
      | Failing m \<Rightarrow> Error m
      | Healthy \<Rightarrow> if p \<in> fst ` set files then Error ''Duplicate''
                   else Data (files @ [(p, file)]))"

subsection \<open>Authentication middleware\<close>

record user =
  uid :: string

text \<open>\<^verbatim>\<open>s.split(" ")\<close>\<close>

fun split_space :: "string \<Rightarrow> string list" where
  "split_space [] = [[]]"
| "split_space (c # cs) =
     (if c = CHR '' '' then [] # split_space cs
      else (case split_space cs of [] \<Rightarrow> [[c]] | w # ws \<Rightarrow> (c # w) # ws))"

text \<open>\<^verbatim>\<open>req.headers.authorization?.split(" ")[1]\<close>, then \<^verbatim>\<open>!token\<close>.\<close>

definition bearer :: "string option \<Rightarrow> string option" where
  "bearer h =
     (case h of
        None \<Rightarrow> None
      | Some s \<Rightarrow> (case split_space s of
                    a # t # rest \<Rightarrow> if t = [] then None else Some t
                  | _ \<Rightarrow> None))"

text \<open>
  part_000, lines 64-92 (server.js, lines 43-71, is the same text). \<open>getUser\<close> is the
  identity verifier: the user a credential belongs to, if any.
\<close>

definition authenticate ::
  "(string \<Rightarrow> user option) \<Rightarrow> fault \<Rightarrow> string option \<Rightarrow> response + user" where
  "authenticate getUser f authorization =
     (case bearer authorization of
        None \<Rightarrow> Inl (Response 401 (JsonError ''Authorization token required''))
      | Some t \<Rightarrow>
          (case f of
             Rejecting \<Rightarrow> Inl (Response 500 (JsonError ''Authentication failed''))
           | Failing m \<Rightarrow> Inl (Response 401 (JsonError ''Unauthorized''))
           | Healthy \<Rightarrow>
               (case getUser t of
                  None \<Rightarrow> Inl (Response 401 (JsonError ''Unauthorized''))
                | Some u \<Rightarrow> Inr u)))"

subsection \<open>GET /report-data\<close>

text \<open>
  part_000, lines 98-142. The table \<^verbatim>\<open>profiles\<close> is the argument \<open>profiles\<close>; the handler
  writes nothing, so its result is the response. An error result of either query is
  answered 500 with the store's message; a rejected promise reaches the \<^verbatim>\<open>catch\<close>.
\<close>

definition report_data :: "fault \<Rightarrow> fault \<Rightarrow> user \<Rightarrow> profile list \<Rightarrow> world \<Rightarrow> response" where
  "report_data f_profile f_tx u profiles w =
     (let userId = uid u in
      case select_single f_profile (\<lambda>p. id_profile p = userId) profiles of
        Thrown \<Rightarrow> Response 500 (JsonError ''Server error'')
      | Error m \<Rightarrow> Response 500 (JsonError m)
      | Data business \<Rightarrow>
          (case select_rows f_tx (\<lambda>r. user_id r = userId \<and> status r = ''verified'')
                  (transactions w) of
             Thrown \<Rightarrow> Response 500 (JsonError ''Server error'')
           | Error m \<Rightarrow> Response 500 (JsonError m)
           | Data txs \<Rightarrow>
               (let verifiedCount = length txs;
                    totalVolume = foldl (\<lambda>sum tx. sum + amount tx) 0 txs;
                    trustScore = min (verifiedCount * 10) 100
                in Response 200
                     (JsonReport business verifiedCount totalVolume trustScore
                        (map (\<lambda>tx. (amount tx, created_at tx, status tx)) txs)))))"

definition route_report_data ::
  "(string \<Rightarrow> user option) \<Rightarrow> fault \<Rightarrow> fault \<Rightarrow> fault \<Rightarrow> string option \<Rightarrow> profile list
     \<Rightarrow> world \<Rightarrow> response" where
  "route_report_data getUser f_auth f_profile f_tx authorization profiles w =
     (case authenticate getUser f_auth authorization of
        Inl r \<Rightarrow> r
      | Inr u \<Rightarrow> report_data f_profile f_tx u profiles w)"

subsection \<open>Upload guard (multer)\<close>

definition ALLOWED_MIME_TYPES :: "string list" where
  "ALLOWED_MIME_TYPES = [''application/pdf'', ''image/jpeg'', ''image/png'']"

datatype upload_error = MulterError string string | PlainError string

text \<open>part_000, lines 50-57.\<close>

definition fileFilter :: "upload_file \<Rightarrow> upload_error option" where
  "fileFilter file =
     (if mimetype file \<notin> set ALLOWED_MIME_TYPES
      then Some (PlainError ''Invalid file type. Only PDF, JPEG, and PNG are allowed.'')
      else None)"

text \<open>
  part_000, lines 46-58, \<^verbatim>\<open>upload.single("file")\<close>: a request without a file part passes
  with \<^verbatim>\<open>req.file\<close> undefined; the filter sees the declared type before the bytes are
  read; a file longer than \<^verbatim>\<open>limits.fileSize\<close> is a \<^verbatim>\<open>LIMIT_FILE_SIZE\<close> error.
\<close>

definition upload_single :: "upload_file option \<Rightarrow> upload_error + upload_file option" where
  "upload_single part =
     (case part of
        None \<Rightarrow> Inr None
      | Some file \<Rightarrow>
          (case fileFilter file of
             Some err \<Rightarrow> Inl err
           | None \<Rightarrow>
               if size_bytes file > 5 * 1024 * 1024
               then Inl (MulterError ''LIMIT_FILE_SIZE'' ''File too large'')
               else Inr (Some file)))"

text \<open>server.js, line 37: memory storage only, neither limit nor filter.\<close>

definition upload_single_server_js :: "upload_file option \<Rightarrow> upload_error + upload_file option" where
  "upload_single_server_js part = Inr part"

text \<open>part_000, lines 341-356, the error-handling middleware (server.js has none).\<close>

fun error_middleware :: "upload_error \<Rightarrow> response" where
  "error_middleware (MulterError c m) =
     (if c = ''LIMIT_FILE_SIZE'' then Response 400 (JsonError ''File too large. Max size is 5MB.'')
      else Response 400 (JsonError m))"
| "error_middleware (PlainError m) =
     Response 400 (JsonError (if m = [] then ''Invalid file upload'' else m))"

subsection \<open>POST /upload-proof\<close>

text \<open>The answer of the \<^verbatim>\<open>catch\<close> of every authenticated handler.\<close>

definition server_error :: response where
  "server_error = Response 500 (JsonError ''Server error'')"

text \<open>
  part_000, lines 179-197 (server.js, lines 142-160, is the same text): store the bytes,
  then write the path to the row. The reply of the row update is not inspected; only a
  rejected promise reaches the \<^verbatim>\<open>catch\<close>.
\<close>

definition upload_proof_store ::
  "fault \<Rightarrow> fault \<Rightarrow> int \<Rightarrow> string \<Rightarrow> upload_file \<Rightarrow> world \<Rightarrow> response \<times> world" where
  "upload_proof_store f_storage f_update now transactionId file w =
     (let filePath = (transactionId, now, originalname file) in
      case storage_upload f_storage filePath file (proof_files w) of
        Thrown \<Rightarrow> (server_error, w)
      | Error m \<Rightarrow> (Response 500 (JsonError ''Upload failed''), w)
      | Data files \<Rightarrow>
          (let w1 = w\<lparr>proof_files := files\<rparr> in
           case update_where f_update (\<lambda>r. transaction_id r = transactionId)
                  (\<lambda>r. r\<lparr>proof_files_urls := Some filePath\<rparr>) (transactions w1) of
             (Thrown, rows) \<Rightarrow> (server_error, w1)
           | (_, rows) \<Rightarrow>
               (Response 200 (JsonMessage ''Proof uploaded successfully''),
                w1\<lparr>transactions := rows\<rparr>)))"

text \<open>
  part_000, lines 152-201. \<^verbatim>\<open>!transactionId\<close> holds of a missing and of an empty field;
  \<^verbatim>\<open>!file\<close> of a request without a file part.
\<close>

definition upload_proof ::
  "fault \<Rightarrow> fault \<Rightarrow> fault \<Rightarrow> int \<Rightarrow> user \<Rightarrow> string option \<Rightarrow> upload_file option \<Rightarrow> world
     \<Rightarrow> response \<times> world" where
  "upload_proof f_lookup f_storage f_update now u transactionId file w =
     (case (transactionId, file) of
        (Some tid, Some fl) \<Rightarrow>
          if tid = [] then (Response 400 (JsonError ''transactionId and file are required''), w)
          else
            (case select_single f_lookup (\<lambda>r. transaction_id r = tid) (transactions w) of
               Thrown \<Rightarrow> (server_error, w)
             | Error m \<Rightarrow> (Response 404 (JsonError ''Transaction not found''), w)
             | Data t \<Rightarrow>
                 if user_id t \<noteq> uid u then (Response 403 (JsonError ''Forbidden''), w)
                 else upload_proof_store f_storage f_update now tid fl w)
      | _ \<Rightarrow> (Response 400 (JsonError ''transactionId and file are required''), w))"

text \<open>server.js, lines 131-164: no lookup of the row, no comparison with the caller.\<close>

definition upload_proof_server_js ::
  "fault \<Rightarrow> fault \<Rightarrow> int \<Rightarrow> user \<Rightarrow> string option \<Rightarrow> upload_file option \<Rightarrow> world
     \<Rightarrow> response \<times> world" where
  "upload_proof_server_js f_storage f_update now u transactionId file w =
     (case (transactionId, file) of
        (Some tid, Some fl) \<Rightarrow>
          if tid = [] then (Response 400 (JsonError ''transactionId and file are required''), w)
          else upload_proof_store f_storage f_update now tid fl w
      | _ \<Rightarrow> (Response 400 (JsonError ''transactionId and file are required''), w))"

text \<open>The routes: \<^verbatim>\<open>authenticate\<close>, then \<^verbatim>\<open>upload.single("file")\<close>, then the handler.\<close>

definition route_upload_proof ::
  "(string \<Rightarrow> user option) \<Rightarrow> fault \<Rightarrow> fault \<Rightarrow> fault \<Rightarrow> fault \<Rightarrow> int \<Rightarrow> string option
     \<Rightarrow> string option \<Rightarrow> upload_file option \<Rightarrow> world \<Rightarrow> response \<times> world" where
  "route_upload_proof getUser f_auth f_lookup f_storage f_update now authorization transactionId part w =
     (case authenticate getUser f_auth authorization of
        Inl r \<Rightarrow> (r, w)
      | Inr u \<Rightarrow>
          (case upload_single part of
             Inl err \<Rightarrow> (error_middleware err, w)
           | Inr file \<Rightarrow> upload_proof f_lookup f_storage f_update now u transactionId file w))"

text \<open>
  In server.js an error passed on by a middleware would reach Express's default handler;
  \<open>upload_single_server_js\<close> never produces one.
\<close>

definition route_upload_proof_server_js ::
  "(string \<Rightarrow> user option) \<Rightarrow> fault \<Rightarrow> fault \<Rightarrow> fault \<Rightarrow> int \<Rightarrow> string option
     \<Rightarrow> string option \<Rightarrow> upload_file option \<Rightarrow> world \<Rightarrow> response \<times> world" where
  "route_upload_proof_server_js getUser f_auth f_storage f_update now authorization transactionId part w =
     (case authenticate getUser f_auth authorization of
        Inl r \<Rightarrow> (r, w)
      | Inr u \<Rightarrow>
          (case upload_single_server_js part of
             Inl err \<Rightarrow> (Response 500 (Text ''Internal Server Error''), w)
           | Inr file \<Rightarrow> upload_proof_server_js f_storage f_update now u transactionId file w))"

subsection \<open>POST /generate-confirmation\<close>

text \<open>
  part_000, lines 231-275, and server.js, lines 190-229: the same text up to the base
  of the link, here the argument \<open>base\<close>. \<open>nonce\<close> is the hex string of
  \<^verbatim>\<open>crypto.randomBytes(32)\<close>; \<open>t_sign\<close> is the clock read inside \<^verbatim>\<open>jwt.sign\<close>,
  \<open>t_store\<close> the one of \<^verbatim>\<open>new Date(Date.now() + 72 * 60 * 60 * 1000)\<close>. The world is the one
  the update meets.
\<close>

definition mint ::
  "(token \<Rightarrow> string) \<Rightarrow> string option \<Rightarrow> fault \<Rightarrow> int \<Rightarrow> int \<Rightarrow> string \<Rightarrow> string \<Rightarrow> string
     \<Rightarrow> world \<Rightarrow> response \<times> world" where
  "mint sha256 secret f_update t_sign t_store nonce transactionId base w =
     (case jwt_sign transactionId nonce secret t_sign of
        None \<Rightarrow> (server_error, w)
      | Some token \<Rightarrow>
          (let tokenHash = sha256 token;
               expiresAt = t_store + 72 * 60 * 60 * 1000
           in case update_where f_update (\<lambda>r. transaction_id r = transactionId)
                     (\<lambda>r. r\<lparr>confirmation_token_hash := Some tokenHash,
                             confirmation_expires_at := Some expiresAt,
                             confirmation_used := False\<rparr>) (transactions w) of
                (Thrown, rows) \<Rightarrow> (server_error, w)
              | (Error m, rows) \<Rightarrow>
                  (Response 500 (JsonError (''Failed to store confirmation token: '' @ m)), w)
              | (Data updatedRows, rows) \<Rightarrow>
                  if updatedRows = []
                  then (Response 404 (JsonError ''Transaction not found for this user''),
                        w\<lparr>transactions := rows\<rparr>)
                  else (Response 200 (JsonConfirmationLink (base @ ''/confirm?token='') token),
                        w\<lparr>transactions := rows\<rparr>)))"

text \<open>\<^verbatim>\<open>`${process.env.CONFIRM_BASE_URL}`\<close>\<close>

definition link_base :: "env \<Rightarrow> string" where
  "link_base e = (case CONFIRM_BASE_URL e of None \<Rightarrow> ''undefined'' | Some b \<Rightarrow> b)"

text \<open>part_000, lines 208-279.\<close>

definition generate_confirmation ::
  "(token \<Rightarrow> string) \<Rightarrow> env \<Rightarrow> fault \<Rightarrow> fault \<Rightarrow> int \<Rightarrow> int \<Rightarrow> string \<Rightarrow> user \<Rightarrow> string option
     \<Rightarrow> world \<Rightarrow> response \<times> world" where
  "generate_confirmation sha256 e f_lookup f_update t_sign t_store nonce u transactionId w =
     (case transactionId of
        None \<Rightarrow> (Response 400 (JsonError ''transactionId required''), w)
      | Some tid \<Rightarrow>
          if tid = [] then (Response 400 (JsonError ''transactionId required''), w)
          else
            (case select_single f_lookup (\<lambda>r. transaction_id r = tid) (transactions w) of
               Thrown \<Rightarrow> (server_error, w)
             | Error m \<Rightarrow> (Response 404 (JsonError ''Transaction not found''), w)
             | Data t \<Rightarrow>
                 if user_id t \<noteq> uid u then (Response 403 (JsonError ''Forbidden''), w)
                 else mint sha256 (JWT_SECRET e) f_update t_sign t_store nonce tid (link_base e) w))"

text \<open>
  server.js, lines 171-233: the row is looked up (server.js names the owner column
  \<^verbatim>\<open>sme_id\<close>; the field \<open>user_id\<close> stands for it), its owner is not compared.
\<close>

definition generate_confirmation_server_js ::
  "(token \<Rightarrow> string) \<Rightarrow> env \<Rightarrow> fault \<Rightarrow> fault \<Rightarrow> int \<Rightarrow> int \<Rightarrow> string \<Rightarrow> user \<Rightarrow> string option
     \<Rightarrow> world \<Rightarrow> response \<times> world" where
  "generate_confirmation_server_js sha256 e f_lookup f_update t_sign t_store nonce u transactionId w =
     (case transactionId of
        None \<Rightarrow> (Response 400 (JsonError ''transactionId required''), w)
      | Some tid \<Rightarrow>
          if tid = [] then (Response 400 (JsonError ''transactionId required''), w)
          else
            (case select_single f_lookup (\<lambda>r. transaction_id r = tid) (transactions w) of
               Thrown \<Rightarrow> (server_error, w)
             | Error m \<Rightarrow> (Response 404 (JsonError ''Transaction not found''), w)
             | Data t \<Rightarrow>
                 mint sha256 (JWT_SECRET e) f_update t_sign t_store nonce tid
                   ''http://localhost:3000'' w))"

definition route_generate_confirmation ::
  "(string \<Rightarrow> user option) \<Rightarrow> (token \<Rightarrow> string) \<Rightarrow> env \<Rightarrow> fault \<Rightarrow> fault \<Rightarrow> fault \<Rightarrow> int \<Rightarrow> int
     \<Rightarrow> string \<Rightarrow> string option \<Rightarrow> string option \<Rightarrow> world \<Rightarrow> response \<times> world" where
  "route_generate_confirmation getUser sha256 e f_auth f_lookup f_update t_sign t_store nonce
       authorization transactionId w =
     (case authenticate getUser f_auth authorization of
        Inl r \<Rightarrow> (r, w)
      | Inr u \<Rightarrow>
          generate_confirmation sha256 e f_lookup f_update t_sign t_store nonce u transactionId w)"

subsection \<open>GET /confirm\<close>

text \<open>
  \<^verbatim>\<open>req.query.token\<close> and \<^verbatim>\<open>decodeURIComponent\<close>: the parameter is not a string
  (missing or repeated), or decoding it throws \<^verbatim>\<open>URIError\<close>, or it decodes to the text
  of a token (\<open>Malformed []\<close> is the empty string).
\<close>

datatype query = QAbsent | QUndecodable | QToken token

definition invalid_or_expired :: response where
  "invalid_or_expired = Response 400 (Text ''Invalid or Expired Token'')"

text \<open>
  part_000, lines 286-321 (server.js, lines 240-272): everything before the update.
  \<open>algs\<close> is the list given to \<^verbatim>\<open>jwt.verify\<close>; \<open>n_verify\<close> is the clock read inside
  \<^verbatim>\<open>jwt.verify\<close>, \<open>n_check\<close> the one of \<^verbatim>\<open>new Date()\<close> in line 320. \<open>Inr\<close> carries
  \<^verbatim>\<open>decoded.transaction_id\<close> on to the update.
\<close>

definition confirm_check ::
  "algorithm list \<Rightarrow> (token \<Rightarrow> string) \<Rightarrow> env \<Rightarrow> fault \<Rightarrow> int \<Rightarrow> int \<Rightarrow> query \<Rightarrow> world
     \<Rightarrow> response + string" where
  "confirm_check algs sha256 e f_lookup n_verify n_check q w =
     (case q of
        QAbsent \<Rightarrow> Inl (Response 400 (Text ''Token required''))
      | QUndecodable \<Rightarrow> Inl invalid_or_expired
      | QToken token \<Rightarrow>
          if token = Malformed [] then Inl (Response 400 (Text ''Token required''))
          else
            (case jwt_verify algs (JWT_SECRET e) n_verify token of
               Inl err \<Rightarrow> Inl invalid_or_expired
             | Inr decoded \<Rightarrow>
                 (let incomingHash = sha256 token in
                  case select_single f_lookup
                         (\<lambda>r. transaction_id r = p_transaction_id decoded
                               \<and> confirmation_token_hash r = Some incomingHash)
                         (transactions w) of
                    Thrown \<Rightarrow> Inl invalid_or_expired
                  | Error m \<Rightarrow> Inl (Response 400 (Text ''Invalid token''))
                  | Data t \<Rightarrow>
                      if confirmation_used t
                      then Inl (Response 400 (Text ''Token already used''))
                      else if n_check > (case confirmation_expires_at t of None \<Rightarrow> 0 | Some x \<Rightarrow> x)
                      then Inl (Response 400 (Text ''Token expired''))
                      else Inr (p_transaction_id decoded))))"

text \<open>
  part_000, lines 323-334 (server.js, lines 274-285): the update, whose reply is not
  inspected, and the success text. The world is the one the update meets.
\<close>

definition confirm_redeem :: "fault \<Rightarrow> string \<Rightarrow> world \<Rightarrow> response \<times> world" where
  "confirm_redeem f_update tid w =
     (case update_where f_update (\<lambda>r. transaction_id r = tid)
             (\<lambda>r. r\<lparr>status := ''verified'', confirmation_used := True\<rparr>) (transactions w) of
        (Thrown, rows) \<Rightarrow> (invalid_or_expired, w)
      | (_, rows) \<Rightarrow>
          (Response 200 (Text ''Transaction Verified Successfully''), w\<lparr>transactions := rows\<rparr>))"

text \<open>One request served without another request in between.\<close>

definition confirm_with ::
  "algorithm list \<Rightarrow> (token \<Rightarrow> string) \<Rightarrow> env \<Rightarrow> fault \<Rightarrow> fault \<Rightarrow> int \<Rightarrow> int \<Rightarrow> query \<Rightarrow> world
     \<Rightarrow> response \<times> world" where
  "confirm_with algs sha256 e f_lookup f_update n_verify n_check q w =
     (case confirm_check algs sha256 e f_lookup n_verify n_check q w of
        Inl r \<Rightarrow> (r, w)
      | Inr tid \<Rightarrow> confirm_redeem f_update tid w)"

text \<open>part_000, line 294: \<^verbatim>\<open>algorithms: ["HS256"]\<close>.\<close>

definition confirm ::
  "(token \<Rightarrow> string) \<Rightarrow> env \<Rightarrow> fault \<Rightarrow> fault \<Rightarrow> int \<Rightarrow> int \<Rightarrow> query \<Rightarrow> world \<Rightarrow> response \<times> world" where
  "confirm = confirm_with [HS256]"

text \<open>
  server.js, line 247: no \<^verbatim>\<open>algorithms\<close> option; with a string secret the library
  allows the three HMAC algorithms.
\<close>

definition confirm_server_js ::
  "(token \<Rightarrow> string) \<Rightarrow> env \<Rightarrow> fault \<Rightarrow> fault \<Rightarrow> int \<Rightarrow> int \<Rightarrow> query \<Rightarrow> world \<Rightarrow> response \<times> world" where
  "confirm_server_js = confirm_with [HS256, HS384, HS512]"

text \<open>
  Two requests \<open>A\<close> and \<open>B\<close> on \<^verbatim>\<open>/confirm\<close>, each suspended at its \<^verbatim>\<open>await\<close>s, in the
  schedule: lookup and checks of \<open>A\<close>, lookup and checks of \<open>B\<close>, update of \<open>A\<close>, update
  of \<open>B\<close>. The result is both responses and the final world.
\<close>

definition confirm_interleaved ::
  "algorithm list \<Rightarrow> (token \<Rightarrow> string) \<Rightarrow> env \<Rightarrow> int \<Rightarrow> int \<Rightarrow> query \<Rightarrow> query \<Rightarrow> world
     \<Rightarrow> response \<times> response \<times> world" where
  "confirm_interleaved algs sha256 e n_verify n_check qA qB w =
     (let cA = confirm_check algs sha256 e Healthy n_verify n_check qA w;
          cB = confirm_check algs sha256 e Healthy n_verify n_check qB w;
          (rA, w1) = (case cA of Inl r \<Rightarrow> (r, w) | Inr tid \<Rightarrow> confirm_redeem Healthy tid w);
          (rB, w2) = (case cB of Inl r \<Rightarrow> (r, w1) | Inr tid \<Rightarrow> confirm_redeem Healthy tid w1)
      in (rA, rB, w2))"

subsection \<open>A world and an environment for concrete runs\<close>

definition env0 :: env where
  "env0 = \<lparr>SUPABASE_URL = Some ''https://db.example'', SUPABASE_SERVICE_ROLE_KEY = Some ''key'',
           JWT_SECRET = Some ''s3cret'', CONFIRM_BASE_URL = Some ''https://app.example''\<rparr>"

definition alice :: user where
  "alice = \<lparr>uid = ''alice''\<rparr>"

definition bob :: user where
  "bob = \<lparr>uid = ''bob''\<rparr>"

definition tx1 :: transaction where
  "tx1 = \<lparr>transaction_id = ''t1'', user_id = ''alice'', status = ''pending'',
          amount = 2500, created_at = ''2026-02-25T12:00:00.000Z'',
          proof_files_urls = None, confirmation_token_hash = None,
          confirmation_expires_at = None, confirmation_used = False\<rparr>"


definition world0 :: world where
  "world0 = \<lparr>transactions = [tx1], proof_files = []\<rparr>"

text \<open>An identity verifier that knows two credentials.\<close>

definition getUser0 :: "string \<Rightarrow> user option" where
  "getUser0 t = (if t = ''tok-alice'' then Some alice else if t = ''tok-bob'' then Some bob else None)"

text \<open>A stand-in for SHA-256 in concrete runs: the nonce of a JWT, the text of anything else.\<close>

fun digest0 :: "token \<Rightarrow> string" where
  "digest0 (Jwt a k p) = p_nonce p"
| "digest0 (Malformed s) = s"

definition token0 :: token where
  "token0 = Jwt HS256 ''s3cret''
     \<lparr>p_transaction_id = ''t1'', p_nonce = ''n1'', p_iat = 0, p_exp = Some 259200\<rparr>"

definition world1 :: world where
  "world1 = \<lparr>transactions =
       [tx1\<lparr>confirmation_token_hash := Some ''n1'', confirmation_expires_at := Some 259200000\<rparr>],
     proof_files = []\<rparr>"

definition world2 :: world where
  "world2 = \<lparr>transactions =
       [tx1\<lparr>status := ''verified'', confirmation_token_hash := Some ''n1'',
             confirmation_expires_at := Some 259200000, confirmation_used := True\<rparr>],
     proof_files = []\<rparr>"

definition token0b :: token where
  "token0b = Jwt HS256 ''s3cret''
     \<lparr>p_transaction_id = ''t1'', p_nonce = ''n2'', p_iat = 1, p_exp = Some 259201\<rparr>"

definition world1b :: world where
  "world1b = \<lparr>transactions =
       [tx1\<lparr>confirmation_token_hash := Some ''n2'', confirmation_expires_at := Some 259201000\<rparr>],
     proof_files = []\<rparr>"

definition script0 :: upload_file where
  "script0 = \<lparr>originalname = ''run.sh'', mimetype = ''text/x-shellscript'', size_bytes = 10\<rparr>"

definition scan0 :: upload_file where
  "scan0 = \<lparr>originalname = ''scan.pdf'', mimetype = ''application/pdf'', size_bytes = 10\<rparr>"

definition big0 :: upload_file where
  "big0 = \<lparr>originalname = ''big.pdf'', mimetype = ''application/pdf'',
            size_bytes = 6 * 1024 * 1024\<rparr>"

section \<open>Properties\<close>

subsection \<open>Rows with a unique id\<close>

lemma filter_transaction_id_unique:
  "distinct (map transaction_id rows) \<Longrightarrow> t \<in> set rows \<Longrightarrow>
   filter (\<lambda>r. transaction_id r = transaction_id t) rows = [t]"
proof (induction rows)
  case Nil
  then show ?case by simp
next
  case (Cons a rows)
  show ?case
  proof (cases "a = t")
    case True
    with Cons.prems have "transaction_id t \<notin> transaction_id ` set rows"
      by simp
    then have "\<forall>r\<in>set rows. transaction_id r \<noteq> transaction_id t"
      by (metis imageI)
    then have "filter (\<lambda>r. transaction_id r = transaction_id t) rows = []"
      by (simp add: filter_empty_conv)
    with True show ?thesis by simp
  next
    case False
    with Cons.prems have "t \<in> set rows" "transaction_id a \<noteq> transaction_id t"
      by auto
    with Cons show ?thesis by simp
  qed
qed

lemma filter_transaction_id_and:
  assumes "distinct (map transaction_id rows)" "t \<in> set rows"
  shows "filter (\<lambda>r. transaction_id r = transaction_id t \<and> Q r) rows = (if Q t then [t] else [])"
proof -
  have "filter (\<lambda>r. transaction_id r = transaction_id t \<and> Q r) rows
        = filter Q (filter (\<lambda>r. transaction_id r = transaction_id t) rows)"
    by (simp add: conj_commute)
  then show ?thesis
    using filter_transaction_id_unique [OF assms] by simp
qed

lemma filter_transaction_id_none:
  "\<forall>r\<in>set rows. transaction_id r \<noteq> tid \<Longrightarrow> filter (\<lambda>r. transaction_id r = tid \<and> Q r) rows = []"
  by (simp add: filter_empty_conv)

lemma select_single_by_id:
  "distinct (map transaction_id rows) \<Longrightarrow> t \<in> set rows \<Longrightarrow>
   select_single Healthy (\<lambda>r. transaction_id r = transaction_id t) rows = Data t"
  by (simp add: select_single_def filter_transaction_id_unique)

lemma map_update_ids:
  "(\<And>r. transaction_id (upd r) = transaction_id r) \<Longrightarrow>
   map transaction_id (map (\<lambda>r. if P r then upd r else r) rows) = map transaction_id rows"
  by (induction rows) auto

lemma map_update_none:
  "\<forall>r\<in>set rows. \<not> P r \<Longrightarrow> map (\<lambda>r. if P r then upd r else r) rows = rows"
  by (induction rows) auto

subsection \<open>Signing, verifying and the checks of /confirm\<close>

lemma jwt_sign_Some:
  "jwt_sign tid nonce secret t_sign = Some tok \<Longrightarrow>
   \<exists>k. secret = Some k \<and> k \<noteq> [] \<and>
       tok = Jwt HS256 k \<lparr>p_transaction_id = tid, p_nonce = nonce, p_iat = t_sign div 1000,
                           p_exp = Some (t_sign div 1000 + 72 * 60 * 60)\<rparr>"
  by (auto simp: jwt_sign_def split: option.splits if_splits)

lemma jwt_verify_minted:
  assumes "jwt_sign tid nonce secret t_sign = Some tok" "HS256 \<in> set algs"
  shows "jwt_verify algs secret n tok =
           (if n div 1000 \<ge> t_sign div 1000 + 72 * 60 * 60 then Inl TokenExpiredError
            else Inr \<lparr>p_transaction_id = tid, p_nonce = nonce, p_iat = t_sign div 1000,
                      p_exp = Some (t_sign div 1000 + 72 * 60 * 60)\<rparr>)"
  using jwt_sign_Some [OF assms(1)] assms(2) by auto

lemma jwt_verify_not_empty:
  "jwt_verify algs secret n tok = Inr p \<Longrightarrow> tok \<noteq> Malformed []"
  by (cases tok) auto

lemma confirm_check_jwt_error:
  "jwt_verify algs (JWT_SECRET e) n1 tok = Inl err \<Longrightarrow> tok \<noteq> Malformed [] \<Longrightarrow>
   confirm_check algs sha256 e f n1 n2 (QToken tok) w = Inl invalid_or_expired"
  by (simp add: confirm_check_def)

lemma confirm_check_match:
  assumes "distinct (map transaction_id (transactions w))" "t \<in> set (transactions w)"
      and "confirmation_token_hash t = Some (sha256 tok)"
      and "jwt_verify algs (JWT_SECRET e) n1 tok = Inr p" "p_transaction_id p = transaction_id t"
  shows "confirm_check algs sha256 e Healthy n1 n2 (QToken tok) w =
           (if confirmation_used t then Inl (Response 400 (Text ''Token already used''))
            else if n2 > (case confirmation_expires_at t of None \<Rightarrow> 0 | Some x \<Rightarrow> x)
            then Inl (Response 400 (Text ''Token expired''))
            else Inr (transaction_id t))"
proof -
  have "filter (\<lambda>r. transaction_id r = transaction_id t
                   \<and> confirmation_token_hash r = Some (sha256 tok)) (transactions w) = [t]"
    using filter_transaction_id_and [OF assms(1,2)] assms(3) by simp
  then show ?thesis
    using assms(4,5) jwt_verify_not_empty [OF assms(4)]
    by (simp add: confirm_check_def select_single_def)
qed

lemma confirm_check_no_match:
  assumes "jwt_verify algs (JWT_SECRET e) n1 tok = Inr p"
      and "\<forall>r\<in>set (transactions w). \<not> (transaction_id r = p_transaction_id p
               \<and> confirmation_token_hash r = Some (sha256 tok))"
  shows "confirm_check algs sha256 e Healthy n1 n2 (QToken tok) w
           = Inl (Response 400 (Text ''Invalid token''))"
proof -
  have "filter (\<lambda>r. transaction_id r = p_transaction_id p
                   \<and> confirmation_token_hash r = Some (sha256 tok)) (transactions w) = []"
    using assms(2) by (simp add: filter_empty_conv)
  then show ?thesis
    using assms(1) jwt_verify_not_empty [OF assms(1)]
    by (simp add: confirm_check_def select_single_def)
qed

subsection \<open>The update of /generate-confirmation\<close>

lemma mint_healthy:
  assumes "jwt_sign tid nonce secret t_sign = Some tok"
      and "t \<in> set (transactions w)" "transaction_id t = tid"
  shows "mint sha256 secret Healthy t_sign t_store nonce tid base w =
           (Response 200 (JsonConfirmationLink (base @ ''/confirm?token='') tok),
            w\<lparr>transactions :=
                 map (\<lambda>r. if transaction_id r = tid
                          then r\<lparr>confirmation_token_hash := Some (sha256 tok),
                                 confirmation_expires_at := Some (t_store + 72 * 60 * 60 * 1000),
                                 confirmation_used := False\<rparr>
                          else r) (transactions w)\<rparr>)"
proof -
  have "filter (\<lambda>r. transaction_id r = tid) (transactions w) \<noteq> []"
    using assms(2,3) by (auto simp: filter_empty_conv)
  then show ?thesis
    using assms(1) by (simp add: mint_def update_where_def)
qed

lemma mint_zero_rows:
  assumes "jwt_sign tid nonce secret t_sign = Some tok"
      and "\<forall>r\<in>set (transactions w). transaction_id r \<noteq> tid"
  shows "mint sha256 secret Healthy t_sign t_store nonce tid base w =
           (Response 404 (JsonError ''Transaction not found for this user''), w)"
proof -
  have "filter (\<lambda>r. transaction_id r = tid) (transactions w) = []"
    using assms(2) by (simp add: filter_empty_conv)
  moreover have "\<And>upd. map (\<lambda>r. if transaction_id r = tid then upd r else r) (transactions w)
                         = transactions w"
    using assms(2) by (simp add: map_update_none)
  ultimately show ?thesis
    using assms(1) by (simp add: mint_def update_where_def)
qed

lemma generate_confirmation_owner:
  assumes "distinct (map transaction_id (transactions w))"
      and "t \<in> set (transactions w)" "transaction_id t = tid" "tid \<noteq> []" "user_id t = uid u"
  shows "generate_confirmation sha256 e Healthy f_update t_sign t_store nonce u (Some tid) w =
           mint sha256 (JWT_SECRET e) f_update t_sign t_store nonce tid (link_base e) w"
  using select_single_by_id [OF assms(1,2)] assms(3,4,5)
  by (simp add: generate_confirmation_def)

lemma run0_mint:
  "generate_confirmation digest0 env0 Healthy Healthy 0 0 ''n1'' alice (Some ''t1'') world0
     = (Response 200 (JsonConfirmationLink ''https://app.example/confirm?token='' token0), world1)"
  by (simp add: generate_confirmation_def select_single_def mint_def jwt_sign_def update_where_def
        link_base_def world0_def world1_def tx1_def env0_def alice_def token0_def)

text \<open>
  Claim C6. For a transaction that exists and is owned by the caller,
  \<^verbatim>\<open>POST /generate-confirmation\<close> answers 200 with the link of the signed token and
  rewrites exactly that row: the commitment is the SHA-256 of the signed token, the expiry
  is the clock plus 72 hours, the used flag is false, whatever the row held before; every
  other field and row is as it was. If the update meets a table with no row of that id (zero
  rows updated), the answer is 404 and carries no link.
\<close>

theorem mint_persists_commitment:
  assumes "distinct (map transaction_id (transactions w))"
      and "t \<in> set (transactions w)" and "transaction_id t = tid" and "tid \<noteq> []"
      and "user_id t = uid u"
      and "jwt_sign tid nonce (JWT_SECRET e) t_sign = Some tok"
  shows "generate_confirmation sha256 e Healthy Healthy t_sign t_store nonce u (Some tid) w =
           (Response 200 (JsonConfirmationLink (link_base e @ ''/confirm?token='') tok),
            w\<lparr>transactions :=
                 map (\<lambda>r. if transaction_id r = tid
                          then r\<lparr>confirmation_token_hash := Some (sha256 tok),
                                 confirmation_expires_at := Some (t_store + 72 * 60 * 60 * 1000),
                                 confirmation_used := False\<rparr>
                          else r) (transactions w)\<rparr>)
         \<and> (\<forall>w'. (\<forall>r\<in>set (transactions w'). transaction_id r \<noteq> tid) \<longrightarrow>
                mint sha256 (JWT_SECRET e) Healthy t_sign t_store nonce tid (link_base e) w' =
                  (Response 404 (JsonError ''Transaction not found for this user''), w'))"
proof (intro conjI allI impI)
  show "generate_confirmation sha256 e Healthy Healthy t_sign t_store nonce u (Some tid) w =
           (Response 200 (JsonConfirmationLink (link_base e @ ''/confirm?token='') tok),
            w\<lparr>transactions :=
                 map (\<lambda>r. if transaction_id r = tid
                          then r\<lparr>confirmation_token_hash := Some (sha256 tok),
                                 confirmation_expires_at := Some (t_store + 72 * 60 * 60 * 1000),
                                 confirmation_used := False\<rparr>
                          else r) (transactions w)\<rparr>)"
    using generate_confirmation_owner [OF assms(1-5)] mint_healthy [OF assms(6,2,3)]
    by simp
next
  fix w' :: world
  assume "\<forall>r\<in>set (transactions w'). transaction_id r \<noteq> tid"
  then show "mint sha256 (JWT_SECRET e) Healthy t_sign t_store nonce tid (link_base e) w' =
                  (Response 404 (JsonError ''Transaction not found for this user''), w')"
    using mint_zero_rows [OF assms(6)] by simp
qed

theorem mint_persists_commitment_witness:
  "generate_confirmation digest0 env0 Healthy Healthy 0 0 ''n1'' alice (Some ''t1'') world0
     = (Response 200 (JsonConfirmationLink ''https://app.example/confirm?token='' token0), world1)
   \<and> mint digest0 (JWT_SECRET env0) Healthy 0 0 ''n1'' ''t1'' (link_base env0)
        \<lparr>transactions = [], proof_files = []\<rparr>
     = (Response 404 (JsonError ''Transaction not found for this user''),
        \<lparr>transactions = [], proof_files = []\<rparr>)"
proof -
  have a: "distinct (map transaction_id (transactions world0))"
    by (simp add: world0_def)
  have b: "tx1 \<in> set (transactions world0)"
    by (simp add: world0_def)
  have c: "transaction_id tx1 = ''t1''" "''t1'' \<noteq> []" "user_id tx1 = uid alice"
    by (simp_all add: tx1_def alice_def)
  have d: "jwt_sign ''t1'' ''n1'' (JWT_SECRET env0) 0 = Some token0"
    by (simp add: jwt_sign_def env0_def token0_def)
  have e: "\<forall>r\<in>set (transactions \<lparr>transactions = [], proof_files = []\<rparr>). transaction_id r \<noteq> ''t1''"
    by simp
  show ?thesis
    using mint_persists_commitment [OF a b c d, of digest0 0] e
    by (simp add: link_base_def env0_def world0_def world1_def tx1_def token0_def)
qed

subsection \<open>Mint, then redeem\<close>

lemma redeem_healthy:
  "confirm_redeem Healthy tid w =
     (Response 200 (Text ''Transaction Verified Successfully''),
      w\<lparr>transactions :=
           map (\<lambda>r. if transaction_id r = tid
                    then r\<lparr>status := ''verified'', confirmation_used := True\<rparr> else r)
               (transactions w)\<rparr>)"
  by (simp add: confirm_redeem_def update_where_def)

lemma confirm_with_rejected:
  "confirm_check algs sha256 e f_lookup n1 n2 q w = Inl r \<Longrightarrow>
   confirm_with algs sha256 e f_lookup f_update n1 n2 q w = (r, w)"
  by (simp add: confirm_with_def)

lemma confirm_with_passed:
  "confirm_check algs sha256 e f_lookup n1 n2 q w = Inr tid \<Longrightarrow>
   confirm_with algs sha256 e f_lookup f_update n1 n2 q w = confirm_redeem f_update tid w"
  by (simp add: confirm_with_def)

text \<open>A live token is redeemed by the first request and refused by every later one.\<close>

lemma redeem_once:
  fixes w1 :: world
  assumes uniq: "distinct (map transaction_id (transactions w1))"
      and row: "t1 \<in> set (transactions w1)"
      and live: "confirmation_token_hash t1 = Some (sha256 tok)" "\<not> confirmation_used t1"
               "confirmation_expires_at t1 = Some x" "n2 \<le> x"
      and jwt: "jwt_verify algs (JWT_SECRET e) n1 tok = Inr p" "p_transaction_id p = transaction_id t1"
  defines "w2 \<equiv> w1\<lparr>transactions :=
                     map (\<lambda>r. if transaction_id r = transaction_id t1
                              then r\<lparr>status := ''verified'', confirmation_used := True\<rparr> else r)
                         (transactions w1)\<rparr>"
  shows "confirm_with algs sha256 e Healthy Healthy n1 n2 (QToken tok) w1 =
           (Response 200 (Text ''Transaction Verified Successfully''), w2)"
    and "filter (\<lambda>r. transaction_id r = transaction_id t1) (transactions w2)
           = [t1\<lparr>status := ''verified'', confirmation_used := True\<rparr>]"
    and "jwt_verify algs (JWT_SECRET e) n3 tok = Inr p \<Longrightarrow>
         confirm_with algs sha256 e Healthy f_update n3 n4 (QToken tok) w2 =
           (Response 400 (Text ''Token already used''), w2)"
    and "jwt_verify algs (JWT_SECRET e) n3 tok = Inl err \<Longrightarrow>
         confirm_with algs sha256 e f_lookup f_update n3 n4 (QToken tok) w2 =
           (invalid_or_expired, w2)"
proof -
  let ?t2 = "t1\<lparr>status := ''verified'', confirmation_used := True\<rparr>"
  have "confirm_check algs sha256 e Healthy n1 n2 (QToken tok) w1 = Inr (transaction_id t1)"
    using confirm_check_match [where ?sha256.0 = sha256 and tok = tok, OF uniq row live(1) jwt] live(2,3,4)
    by simp
  then show "confirm_with algs sha256 e Healthy Healthy n1 n2 (QToken tok) w1 =
           (Response 200 (Text ''Transaction Verified Successfully''), w2)"
    by (simp add: confirm_with_passed redeem_healthy w2_def)
  have ids: "map transaction_id (transactions w2) = map transaction_id (transactions w1)"
    by (simp add: w2_def map_update_ids)
  then have uniq2: "distinct (map transaction_id (transactions w2))"
    using uniq by simp
  have row2: "?t2 \<in> set (transactions w2)"
    using row by (force simp: w2_def)
  have id2: "transaction_id ?t2 = transaction_id t1"
    by simp
  show "filter (\<lambda>r. transaction_id r = transaction_id t1) (transactions w2) = [?t2]"
    using filter_transaction_id_unique [OF uniq2 row2] by simp
  have nonempty: "tok \<noteq> Malformed []"
    using jwt(1) by (rule jwt_verify_not_empty)
  {
    assume v3: "jwt_verify algs (JWT_SECRET e) n3 tok = Inr p"
    have "confirm_check algs sha256 e Healthy n3 n4 (QToken tok) w2
            = Inl (Response 400 (Text ''Token already used''))"
      using confirm_check_match [where ?sha256.0 = sha256 and tok = tok and ?n1.0 = n3 and ?n2.0 = n4
                and p = p and algs = algs and e = e, OF uniq2 row2] live(1) jwt(2) v3
      by simp
    then show "confirm_with algs sha256 e Healthy f_update n3 n4 (QToken tok) w2 =
           (Response 400 (Text ''Token already used''), w2)"
      by (simp add: confirm_with_rejected)
  }
  {
    assume "jwt_verify algs (JWT_SECRET e) n3 tok = Inl err"
    then show "confirm_with algs sha256 e f_lookup f_update n3 n4 (QToken tok) w2 =
           (invalid_or_expired, w2)"
      using nonempty by (simp add: confirm_with_rejected confirm_check_jwt_error)
  }
qed

lemma mint_then_redeem:
  fixes w :: world
  assumes uniq: "distinct (map transaction_id (transactions w))"
      and row: "t \<in> set (transactions w)" "transaction_id t = tid"
      and signed: "jwt_sign tid nonce (JWT_SECRET e) t_sign = Some tok"
      and alg: "HS256 \<in> set algs"
      and minted: "mint sha256 (JWT_SECRET e) Healthy t_sign t_store nonce tid base w = (r0, w1)"
      and fresh: "n1 div 1000 < t_sign div 1000 + 72 * 60 * 60" "n2 \<le> t_store + 72 * 60 * 60 * 1000"
      and first: "confirm_with algs sha256 e Healthy Healthy n1 n2 (QToken tok) w1 = (r1, w2)"
  shows "r1 = Response 200 (Text ''Transaction Verified Successfully'')"
    and "\<exists>t'. filter (\<lambda>r. transaction_id r = tid) (transactions w2) = [t']
              \<and> status t' = ''verified'' \<and> confirmation_used t'"
    and "n3 div 1000 < t_sign div 1000 + 72 * 60 * 60 \<Longrightarrow>
         confirm_with algs sha256 e Healthy Healthy n3 n4 (QToken tok) w2
           = (Response 400 (Text ''Token already used''), w2)"
    and "code (fst (confirm_with algs sha256 e Healthy Healthy n3 n4 (QToken tok) w2)) = 400
         \<and> snd (confirm_with algs sha256 e Healthy Healthy n3 n4 (QToken tok) w2) = w2"
proof -
  let ?upd = "\<lambda>r. r\<lparr>confirmation_token_hash := Some (sha256 tok),
                      confirmation_expires_at := Some (t_store + 72 * 60 * 60 * 1000),
                      confirmation_used := False\<rparr>"
  let ?p = "\<lparr>p_transaction_id = tid, p_nonce = nonce, p_iat = t_sign div 1000,
             p_exp = Some (t_sign div 1000 + 72 * 60 * 60)\<rparr>"
  have w1: "w1 = w\<lparr>transactions :=
                    map (\<lambda>r. if transaction_id r = tid then ?upd r else r) (transactions w)\<rparr>"
    using mint_healthy [OF signed row, of sha256 t_store base] minted by simp
  have "map transaction_id (transactions w1) = map transaction_id (transactions w)"
    by (simp add: w1 map_update_ids)
  then have uniq1: "distinct (map transaction_id (transactions w1))"
    using uniq by simp
  have row1: "?upd t \<in> set (transactions w1)"
    using row by (force simp: w1)
  have live: "confirmation_token_hash (?upd t) = Some (sha256 tok)" "\<not> confirmation_used (?upd t)"
             "confirmation_expires_at (?upd t) = Some (t_store + 72 * 60 * 60 * 1000)"
    by simp_all
  have v: "\<And>n. n div 1000 < t_sign div 1000 + 72 * 60 * 60 \<Longrightarrow>
             jwt_verify algs (JWT_SECRET e) n tok = Inr ?p"
    using jwt_verify_minted [OF signed alg] by simp
  have x: "\<And>n. \<not> n div 1000 < t_sign div 1000 + 72 * 60 * 60 \<Longrightarrow>
             jwt_verify algs (JWT_SECRET e) n tok = Inl TokenExpiredError"
    using jwt_verify_minted [OF signed alg] by simp
  have pid: "p_transaction_id ?p = transaction_id (?upd t)"
    using row(2) by simp
  note once = redeem_once [where ?sha256.0 = sha256 and tok = tok, OF uniq1 row1 live fresh(2) v [OF fresh(1)] pid]
  have w2: "w2 = w1\<lparr>transactions :=
                     map (\<lambda>r. if transaction_id r = transaction_id (?upd t)
                              then r\<lparr>status := ''verified'', confirmation_used := True\<rparr> else r)
                         (transactions w1)\<rparr>"
    and r1: "r1 = Response 200 (Text ''Transaction Verified Successfully'')"
    using once(1) first by simp_all
  show "r1 = Response 200 (Text ''Transaction Verified Successfully'')"
    by (rule r1)
  show "\<exists>t'. filter (\<lambda>r. transaction_id r = tid) (transactions w2) = [t']
              \<and> status t' = ''verified'' \<and> confirmation_used t'"
    using once(2) row(2) unfolding w2 by simp
  have used: "\<And>n3 n4. n3 div 1000 < t_sign div 1000 + 72 * 60 * 60 \<Longrightarrow>
         confirm_with algs sha256 e Healthy Healthy n3 n4 (QToken tok) w2
           = (Response 400 (Text ''Token already used''), w2)"
    using once(3) [OF v] unfolding w2 by simp
  have late: "\<And>n3 n4. \<not> n3 div 1000 < t_sign div 1000 + 72 * 60 * 60 \<Longrightarrow>
         confirm_with algs sha256 e Healthy Healthy n3 n4 (QToken tok) w2
           = (invalid_or_expired, w2)"
    using once(4) [OF x] unfolding w2 by simp
  show "n3 div 1000 < t_sign div 1000 + 72 * 60 * 60 \<Longrightarrow>
         confirm_with algs sha256 e Healthy Healthy n3 n4 (QToken tok) w2
           = (Response 400 (Text ''Token already used''), w2)"
    by (rule used)
  show "code (fst (confirm_with algs sha256 e Healthy Healthy n3 n4 (QToken tok) w2)) = 400
         \<and> snd (confirm_with algs sha256 e Healthy Healthy n3 n4 (QToken tok) w2) = w2"
  proof (cases "n3 div 1000 < t_sign div 1000 + 72 * 60 * 60")
    case True
    then show ?thesis using used [of n3 n4] by simp
  next
    case False
    then show ?thesis using late [of n3 n4] by (simp add: invalid_or_expired_def)
  qed
qed

lemma run0_confirm:
  "confirm digest0 env0 Healthy Healthy 5 6 (QToken token0) world1
     = (Response 200 (Text ''Transaction Verified Successfully''), world2)"
  by (simp add: confirm_def confirm_with_def confirm_check_def confirm_redeem_def select_single_def
        update_where_def token0_def env0_def world1_def world2_def tx1_def)

text \<open>
  Claim C2. A token minted for an existing transaction of the caller and presented to
  \<^verbatim>\<open>GET /confirm\<close> while it is fresh (the JWT is not expired at the clock of
  \<^verbatim>\<open>jwt.verify\<close>, the stored expiry is not passed at the clock of the second check) is
  accepted: the answer is 200, the row has status \<open>verified\<close> and the used flag set. A
  second request with the same token inside the JWT's lifetime answers 400
  \<open>Token already used\<close>; at any clock it answers 400 and the world stays as it is.
\<close>

theorem verify_after_mint_succeeds_once:
  fixes w :: world
  assumes "distinct (map transaction_id (transactions w))"
      and "t \<in> set (transactions w)" and "transaction_id t = tid" and "tid \<noteq> []"
      and "user_id t = uid u"
      and "jwt_sign tid nonce (JWT_SECRET e) t_sign = Some tok"
      and "generate_confirmation sha256 e Healthy Healthy t_sign t_store nonce u (Some tid) w = (r0, w1)"
      and "n1 div 1000 < t_sign div 1000 + 72 * 60 * 60" and "n2 \<le> t_store + 72 * 60 * 60 * 1000"
      and "confirm sha256 e Healthy Healthy n1 n2 (QToken tok) w1 = (r1, w2)"
  shows "r1 = Response 200 (Text ''Transaction Verified Successfully'')
       \<and> (\<exists>t'. filter (\<lambda>r. transaction_id r = tid) (transactions w2) = [t']
                \<and> status t' = ''verified'' \<and> confirmation_used t')
       \<and> (\<forall>n3 n4. n3 div 1000 < t_sign div 1000 + 72 * 60 * 60 \<longrightarrow>
              confirm sha256 e Healthy Healthy n3 n4 (QToken tok) w2
                = (Response 400 (Text ''Token already used''), w2))
       \<and> (\<forall>n3 n4. code (fst (confirm sha256 e Healthy Healthy n3 n4 (QToken tok) w2)) = 400
                 \<and> snd (confirm sha256 e Healthy Healthy n3 n4 (QToken tok) w2) = w2)"
proof -
  have m: "mint sha256 (JWT_SECRET e) Healthy t_sign t_store nonce tid (link_base e) w = (r0, w1)"
    using generate_confirmation_owner [OF assms(1-5)] assms(7) by simp
  have c: "confirm_with [HS256] sha256 e Healthy Healthy n1 n2 (QToken tok) w1 = (r1, w2)"
    using assms(10) by (simp add: confirm_def)
  have alg: "HS256 \<in> set [HS256]"
    by simp
  note core = mint_then_redeem [OF assms(1,2,3,6) alg m assms(8,9) c]
  show ?thesis
    by (simp add: confirm_def core)
qed

text \<open>The run \<open>world0\<close>, \<open>world1\<close>, \<open>world2\<close> is an instance.\<close>

theorem verify_after_mint_succeeds_once_witness:
  "confirm digest0 env0 Healthy Healthy 5 6 (QToken token0) world1
     = (Response 200 (Text ''Transaction Verified Successfully''), world2)
   \<and> confirm digest0 env0 Healthy Healthy 7 8 (QToken token0) world2
     = (Response 400 (Text ''Token already used''), world2)"
proof -
  have a: "distinct (map transaction_id (transactions world0))"
    by (simp add: world0_def)
  have b: "tx1 \<in> set (transactions world0)"
    by (simp add: world0_def)
  have c: "transaction_id tx1 = ''t1''" "''t1'' \<noteq> []" "user_id tx1 = uid alice"
    by (simp_all add: tx1_def alice_def)
  have d: "jwt_sign ''t1'' ''n1'' (JWT_SECRET env0) 0 = Some token0"
    by (simp add: jwt_sign_def env0_def token0_def)
  have f: "(5::int) div 1000 < 0 div 1000 + 72 * 60 * 60" "(6::int) \<le> 0 + 72 * 60 * 60 * 1000"
    by simp_all
  note th = verify_after_mint_succeeds_once [OF a b c d run0_mint f run0_confirm]
  from th have "(7::int) div 1000 < 0 div 1000 + 72 * 60 * 60 \<longrightarrow>
      confirm digest0 env0 Healthy Healthy 7 8 (QToken token0) world2
        = (Response 400 (Text ''Token already used''), world2)"
    by blast
  then show ?thesis
    using run0_confirm by simp
qed

subsection \<open>Expiry\<close>

lemma div_1000_window:
  fixes t_sign t_store n :: int
  assumes "t_sign \<le> t_store" "t_store + 72 * 60 * 60 * 1000 < n"
  shows "t_sign div 1000 + 72 * 60 * 60 \<le> n div 1000"
proof -
  have "t_sign + 259200 * 1000 \<le> n"
    using assms by simp
  then have "(t_sign + 259200 * 1000) div 1000 \<le> n div 1000"
    by (rule zdiv_mono1) simp
  moreover have "(t_sign + 259200 * 1000) div 1000 = 259200 + t_sign div 1000"
    by (rule div_mult_self1) simp
  ultimately show ?thesis
    by simp
qed

lemma confirm_with_expired:
  assumes "jwt_sign tid nonce secret t_sign = Some tok"
      and "t_sign \<le> t_store" and "t_store + 72 * 60 * 60 * 1000 < n1"
  shows "confirm_with algs sha256 e f_lookup f_update n1 n2 (QToken tok) w = (invalid_or_expired, w)"
proof -
  obtain k where tok: "tok = Jwt HS256 k \<lparr>p_transaction_id = tid, p_nonce = nonce,
        p_iat = t_sign div 1000, p_exp = Some (t_sign div 1000 + 72 * 60 * 60)\<rparr>"
    using jwt_sign_Some [OF assms(1)] by blast
  have "t_sign div 1000 + 72 * 60 * 60 \<le> n1 div 1000"
    using assms(2,3) by (rule div_1000_window)
  then have "\<exists>err. jwt_verify algs (JWT_SECRET e) n1 tok = Inl err"
    by (simp add: tok)
  then show ?thesis
    by (auto simp: confirm_with_rejected confirm_check_jwt_error tok)
qed

text \<open>
  Claim C5, as amended. A token made by \<^verbatim>\<open>jwt.sign\<close> at clock \<open>t_sign\<close>, whose stored
  expiry was computed at a clock \<open>t_store\<close> not before \<open>t_sign\<close>, and presented after
  the stored expiry has passed, is refused with 400 \<open>Invalid or Expired Token\<close> by the
  \<^verbatim>\<open>catch\<close> around \<^verbatim>\<open>jwt.verify\<close>, whatever the store does; the world is unchanged.
  The check against the stored expiry is not reached: the JWT's \<^verbatim>\<open>exp\<close> is in whole seconds,
  rounded down, so it is never later than the stored expiry.
\<close>

theorem expired_token_fails_at_jwt_layer:
  assumes "jwt_sign tid nonce secret t_sign = Some tok"
      and "t_sign \<le> t_store" and "t_store + 72 * 60 * 60 * 1000 < n1"
  shows "confirm sha256 e f_lookup f_update n1 n2 (QToken tok) w
           = (Response 400 (Text ''Invalid or Expired Token''), w)
       \<and> confirm_server_js sha256 e f_lookup f_update n1 n2 (QToken tok) w
           = (Response 400 (Text ''Invalid or Expired Token''), w)"
  using confirm_with_expired [OF assms]
  by (simp add: confirm_def confirm_server_js_def invalid_or_expired_def)

text \<open>One millisecond after the stored expiry of the token of \<open>world1\<close>.\<close>

theorem expired_token_fails_at_jwt_layer_witness:
  "confirm digest0 env0 Healthy Healthy 259200001 259200002 (QToken token0) world1
     = (Response 400 (Text ''Invalid or Expired Token''), world1)"
proof -
  have a: "jwt_sign ''t1'' ''n1'' (JWT_SECRET env0) 0 = Some token0"
    by (simp add: jwt_sign_def env0_def token0_def)
  have b: "(0::int) \<le> 0" "(0::int) + 72 * 60 * 60 * 1000 < 259200001"
    by simp_all
  show ?thesis
    using expired_token_fails_at_jwt_layer [OF a b] by simp
qed

text \<open>
  Claim C5 as stated fails: the token of \<open>world1\<close> has the stored expiry 259200000 ms
  and the embedded expiry 259200 s, the same instant; presented one millisecond later it
  is not answered with \<open>Token expired\<close>.
\<close>

theorem store_side_expiry_not_reached:
  "generate_confirmation digest0 env0 Healthy Healthy 0 0 ''n1'' alice (Some ''t1'') world0
     = (Response 200 (JsonConfirmationLink ''https://app.example/confirm?token='' token0), world1)
   \<and> confirmation_expires_at (hd (transactions world1)) = Some 259200000
   \<and> fst (confirm digest0 env0 Healthy Healthy 259200001 259200001 (QToken token0) world1)
       = Response 400 (Text ''Invalid or Expired Token'')
   \<and> fst (confirm digest0 env0 Healthy Healthy 259200001 259200001 (QToken token0) world1)
       \<noteq> Response 400 (Text ''Token expired'')"
proof (intro conjI)
  show "generate_confirmation digest0 env0 Healthy Healthy 0 0 ''n1'' alice (Some ''t1'') world0
     = (Response 200 (JsonConfirmationLink ''https://app.example/confirm?token='' token0), world1)"
    by (rule run0_mint)
  show "confirmation_expires_at (hd (transactions world1)) = Some 259200000"
    by (simp add: world1_def)
  show "fst (confirm digest0 env0 Healthy Healthy 259200001 259200001 (QToken token0) world1)
       = Response 400 (Text ''Invalid or Expired Token'')"
    by (simp add: confirm_def confirm_with_def confirm_check_def token0_def env0_def
          invalid_or_expired_def)
  then show "fst (confirm digest0 env0 Healthy Healthy 259200001 259200001 (QToken token0) world1)
       \<noteq> Response 400 (Text ''Token expired'')"
    by simp
qed

text \<open>
  The check against the stored expiry answers only when the clock passes the expiry between
  the two reads of one request.
\<close>

lemma store_side_expiry_between_reads:
  "confirm digest0 env0 Healthy Healthy 259199999 259200001 (QToken token0) world1
     = (Response 400 (Text ''Token expired''), world1)"
  by (simp add: confirm_def confirm_with_def confirm_check_def select_single_def
        token0_def env0_def world1_def tx1_def)

subsection \<open>Minting twice\<close>

lemma map_update_all:
  assumes "\<And>r. Q (upd r)" and "\<And>r. transaction_id (upd r) = transaction_id r"
  shows "\<forall>x\<in>set (map (\<lambda>r. if transaction_id r = tid then upd r else r) rows).
           transaction_id x = tid \<longrightarrow> Q x"
  using assms by (induction rows) simp_all

lemma mint_overwrites:
  assumes "jwt_sign tid nonce secret t_sign = Some tok"
      and "t \<in> set (transactions w)" "transaction_id t = tid"
      and "mint sha256 secret Healthy t_sign t_store nonce tid base w = (r, w')"
  shows "r = Response 200 (JsonConfirmationLink (base @ ''/confirm?token='') tok)"
    and "map transaction_id (transactions w') = map transaction_id (transactions w)"
    and "\<forall>x\<in>set (transactions w'). transaction_id x = tid \<longrightarrow>
           confirmation_token_hash x = Some (sha256 tok)"
    and "t\<lparr>confirmation_token_hash := Some (sha256 tok),
           confirmation_expires_at := Some (t_store + 72 * 60 * 60 * 1000),
           confirmation_used := False\<rparr> \<in> set (transactions w')"
proof -
  let ?upd = "\<lambda>r. r\<lparr>confirmation_token_hash := Some (sha256 tok),
                      confirmation_expires_at := Some (t_store + 72 * 60 * 60 * 1000),
                      confirmation_used := False\<rparr>"
  have w': "w' = w\<lparr>transactions :=
                    map (\<lambda>r. if transaction_id r = tid then ?upd r else r) (transactions w)\<rparr>"
    and r: "r = Response 200 (JsonConfirmationLink (base @ ''/confirm?token='') tok)"
    using mint_healthy [OF assms(1,2,3), of sha256 t_store base] assms(4) by simp_all
  have tw: "transactions w' =
              map (\<lambda>r. if transaction_id r = tid then ?upd r else r) (transactions w)"
    by (simp add: w')
  show "r = Response 200 (JsonConfirmationLink (base @ ''/confirm?token='') tok)"
    by (rule r)
  show "map transaction_id (transactions w') = map transaction_id (transactions w)"
    by (simp add: w' map_update_ids)
  show "\<forall>x\<in>set (transactions w'). transaction_id x = tid \<longrightarrow>
           confirmation_token_hash x = Some (sha256 tok)"
  proof -
    have q: "\<And>r. confirmation_token_hash (?upd r) = Some (sha256 tok)"
      by simp
    have i: "\<And>r. transaction_id (?upd r) = transaction_id r"
      by simp
    have "\<forall>x\<in>set (map (\<lambda>r. if transaction_id r = tid then ?upd r else r) (transactions w)).
           transaction_id x = tid \<longrightarrow> confirmation_token_hash x = Some (sha256 tok)"
      by (rule map_update_all [where Q = "\<lambda>x. confirmation_token_hash x = Some (sha256 tok)"
            and upd = ?upd, OF q i])
    then show ?thesis
      unfolding tw .
  qed
  show "?upd t \<in> set (transactions w')"
  proof -
    have "(\<lambda>r. if transaction_id r = tid then ?upd r else r) t
            \<in> set (map (\<lambda>r. if transaction_id r = tid then ?upd r else r) (transactions w))"
      using assms(2) by (simp only: set_map image_eqI)
    then show ?thesis
      unfolding tw using assms(3) by (simp only: simp_thms if_True)
  qed
qed

text \<open>
  Claim C4. After two successive mints for the same transaction, the first token is
  refused by \<^verbatim>\<open>GET /confirm\<close>: inside the JWT's lifetime with 400 \<open>Invalid token\<close>,
  because no row has both the id and the hash of the first token; later with 400
  \<open>Invalid or Expired Token\<close>. The world is unchanged. The hypothesis on \<open>sha256\<close> says
  that the two tokens (different nonces or issue times) do not collide.
\<close>

theorem second_mint_invalidates_first:
  fixes w :: world
  assumes "distinct (map transaction_id (transactions w))"
      and "t \<in> set (transactions w)" and "transaction_id t = tid" and "tid \<noteq> []"
      and "user_id t = uid u"
      and "jwt_sign tid nonce1 (JWT_SECRET e) ts1 = Some tok1"
      and "jwt_sign tid nonce2 (JWT_SECRET e) ts2 = Some tok2"
      and "sha256 tok1 \<noteq> sha256 tok2"
      and "generate_confirmation sha256 e Healthy Healthy ts1 tt1 nonce1 u (Some tid) w = (r1, w1)"
      and "generate_confirmation sha256 e Healthy Healthy ts2 tt2 nonce2 u (Some tid) w1 = (r2, w2)"
  shows "r1 = Response 200 (JsonConfirmationLink (link_base e @ ''/confirm?token='') tok1)
       \<and> r2 = Response 200 (JsonConfirmationLink (link_base e @ ''/confirm?token='') tok2)
       \<and> (\<forall>n1 n2. n1 div 1000 < ts1 div 1000 + 72 * 60 * 60 \<longrightarrow>
              confirm sha256 e Healthy Healthy n1 n2 (QToken tok1) w2
                = (Response 400 (Text ''Invalid token''), w2))
       \<and> (\<forall>n1 n2. \<not> n1 div 1000 < ts1 div 1000 + 72 * 60 * 60 \<longrightarrow>
              confirm sha256 e Healthy Healthy n1 n2 (QToken tok1) w2
                = (Response 400 (Text ''Invalid or Expired Token''), w2))"
proof -
  let ?upd1 = "\<lambda>r. r\<lparr>confirmation_token_hash := Some (sha256 tok1),
                       confirmation_expires_at := Some (tt1 + 72 * 60 * 60 * 1000),
                       confirmation_used := False\<rparr>"
  let ?p = "\<lparr>p_transaction_id = tid, p_nonce = nonce1, p_iat = ts1 div 1000,
             p_exp = Some (ts1 div 1000 + 72 * 60 * 60)\<rparr>"
  have m1: "mint sha256 (JWT_SECRET e) Healthy ts1 tt1 nonce1 tid (link_base e) w = (r1, w1)"
    using generate_confirmation_owner [OF assms(1-5)] assms(9) by simp
  note first = mint_overwrites [OF assms(6,2,3) m1]
  have uniq1: "distinct (map transaction_id (transactions w1))"
    using assms(1) first(2) by simp
  have id1: "transaction_id (?upd1 t) = tid" "user_id (?upd1 t) = uid u"
    using assms(3,5) by simp_all
  have m2: "mint sha256 (JWT_SECRET e) Healthy ts2 tt2 nonce2 tid (link_base e) w1 = (r2, w2)"
    using generate_confirmation_owner [OF uniq1 first(4) id1(1) assms(4) id1(2)] assms(10) by simp
  note second = mint_overwrites [OF assms(7) first(4) id1(1) m2]
  have nomatch: "\<forall>r\<in>set (transactions w2). \<not> (transaction_id r = p_transaction_id ?p
               \<and> confirmation_token_hash r = Some (sha256 tok1))"
  proof (intro ballI notI)
    fix r
    assume r: "r \<in> set (transactions w2)"
       and m: "transaction_id r = p_transaction_id ?p \<and> confirmation_token_hash r = Some (sha256 tok1)"
    from m have "transaction_id r = tid"
      by simp
    with r second(3) have "confirmation_token_hash r = Some (sha256 tok2)"
      by blast
    with m assms(8) show False
      by simp
  qed
  have alg: "HS256 \<in> set [HS256]"
    by simp
  have live: "\<And>n1 n2. n1 div 1000 < ts1 div 1000 + 72 * 60 * 60 \<Longrightarrow>
              confirm sha256 e Healthy Healthy n1 n2 (QToken tok1) w2
                = (Response 400 (Text ''Invalid token''), w2)"
  proof -
    fix n1 n2 :: int
    assume "n1 div 1000 < ts1 div 1000 + 72 * 60 * 60"
    then have "jwt_verify [HS256] (JWT_SECRET e) n1 tok1 = Inr ?p"
      using jwt_verify_minted [OF assms(6) alg] by simp
    then have "confirm_check [HS256] sha256 e Healthy n1 n2 (QToken tok1) w2
                 = Inl (Response 400 (Text ''Invalid token''))"
      using nomatch by (rule confirm_check_no_match)
    then show "confirm sha256 e Healthy Healthy n1 n2 (QToken tok1) w2
                = (Response 400 (Text ''Invalid token''), w2)"
      by (simp add: confirm_def confirm_with_rejected)
  qed
  have late: "\<And>n1 n2. \<not> n1 div 1000 < ts1 div 1000 + 72 * 60 * 60 \<Longrightarrow>
              confirm sha256 e Healthy Healthy n1 n2 (QToken tok1) w2
                = (Response 400 (Text ''Invalid or Expired Token''), w2)"
  proof -
    fix n1 n2 :: int
    assume "\<not> n1 div 1000 < ts1 div 1000 + 72 * 60 * 60"
    then have "jwt_verify [HS256] (JWT_SECRET e) n1 tok1 = Inl TokenExpiredError"
      using jwt_verify_minted [OF assms(6) alg] by simp
    moreover have "tok1 \<noteq> Malformed []"
      using jwt_sign_Some [OF assms(6)] by auto
    ultimately have "confirm_check [HS256] sha256 e Healthy n1 n2 (QToken tok1) w2
                 = Inl invalid_or_expired"
      by (rule confirm_check_jwt_error)
    then show "confirm sha256 e Healthy Healthy n1 n2 (QToken tok1) w2
                = (Response 400 (Text ''Invalid or Expired Token''), w2)"
      by (simp add: confirm_def confirm_with_rejected invalid_or_expired_def)
  qed
  show ?thesis
  proof (intro conjI allI impI)
    show "r1 = Response 200 (JsonConfirmationLink (link_base e @ ''/confirm?token='') tok1)"
      by (rule first(1))
    show "r2 = Response 200 (JsonConfirmationLink (link_base e @ ''/confirm?token='') tok2)"
      by (rule second(1))
  qed (rule live, assumption, rule late, assumption)
qed

lemma run0_mint_again:
  "generate_confirmation digest0 env0 Healthy Healthy 1000 1000 ''n2'' alice (Some ''t1'') world1
     = (Response 200 (JsonConfirmationLink ''https://app.example/confirm?token='' token0b), world1b)"
  by (simp add: generate_confirmation_def select_single_def mint_def jwt_sign_def update_where_def
        link_base_def world1_def world1b_def tx1_def env0_def alice_def token0b_def)

text \<open>Minting again in \<open>world1\<close> gives \<open>world1b\<close>, where the first token is refused.\<close>

theorem second_mint_invalidates_first_witness:
  "confirm digest0 env0 Healthy Healthy 2000 2001 (QToken token0) world1b
     = (Response 400 (Text ''Invalid token''), world1b)"
proof -
  have a: "distinct (map transaction_id (transactions world0))"
    by (simp add: world0_def)
  have b: "tx1 \<in> set (transactions world0)"
    by (simp add: world0_def)
  have c: "transaction_id tx1 = ''t1''" "''t1'' \<noteq> []" "user_id tx1 = uid alice"
    by (simp_all add: tx1_def alice_def)
  have d: "jwt_sign ''t1'' ''n1'' (JWT_SECRET env0) 0 = Some token0"
    by (simp add: jwt_sign_def env0_def token0_def)
  have e: "jwt_sign ''t1'' ''n2'' (JWT_SECRET env0) 1000 = Some token0b"
    by (simp add: jwt_sign_def env0_def token0b_def)
  have f: "digest0 token0 \<noteq> digest0 token0b"
    by (simp add: token0_def token0b_def)
  note th = second_mint_invalidates_first [OF a b c d e f run0_mint run0_mint_again]
  from th have "(2000::int) div 1000 < 0 div 1000 + 72 * 60 * 60 \<longrightarrow>
      confirm digest0 env0 Healthy Healthy 2000 2001 (QToken token0) world1b
        = (Response 400 (Text ''Invalid token''), world1b)"
    by blast
  then show ?thesis
    by simp
qed

subsection \<open>Two requests at once\<close>

text \<open>
  In the schedule of \<open>confirm_interleaved\<close>, two requests with the same query both answer
  200 whenever the checks of one of them pass.
\<close>

lemma confirm_interleaved_same_query:
  "confirm_check algs sha256 e Healthy n_verify n_check q w = Inr tid \<Longrightarrow>
   \<exists>w'. confirm_interleaved algs sha256 e n_verify n_check q q w
          = (Response 200 (Text ''Transaction Verified Successfully''),
             Response 200 (Text ''Transaction Verified Successfully''), w')"
  by (simp add: confirm_interleaved_def redeem_healthy Let_def)

text \<open>
  Claim C3 does not hold of the code: the update of line 323 filters on
  \<^verbatim>\<open>transaction_id\<close> alone, not on \<^verbatim>\<open>confirmation_used\<close>. When both requests pass their
  checks before either update, both answer 200.
\<close>

theorem concurrent_confirm_both_succeed:
  "confirm_interleaved [HS256] digest0 env0 5 6 (QToken token0) (QToken token0) world1
     = (Response 200 (Text ''Transaction Verified Successfully''),
        Response 200 (Text ''Transaction Verified Successfully''), world2)"
  by (simp add: confirm_interleaved_def confirm_check_def confirm_redeem_def select_single_def
        update_where_def token0_def env0_def world1_def world2_def tx1_def)

subsection \<open>Ownership\<close>

lemma authenticate_alice: "authenticate getUser0 Healthy (Some ''Bearer tok-alice'') = Inr alice"
  by (simp add: authenticate_def bearer_def getUser0_def)

lemma authenticate_bob: "authenticate getUser0 Healthy (Some ''Bearer tok-bob'') = Inr bob"
  by (simp add: authenticate_def bearer_def getUser0_def)

lemma lookup_tx1: "select_single Healthy (\<lambda>r. transaction_id r = ''t1'') (transactions world0) = Data tx1"
  by (simp add: select_single_def world0_def tx1_def)

text \<open>
  Claim C1, as amended (handlers of part_000). When the row looked up in the request
  belongs to somebody else, \<^verbatim>\<open>POST /generate-confirmation\<close> answers 403, and
  \<^verbatim>\<open>POST /upload-proof\<close> answers 403 once the request carries a file that passed the
  upload guard; without a file, or with a file the guard refuses, the answer is 400 and
  the ownership check is not reached. In every case the world is unchanged. The owner
  compared is \<^verbatim>\<open>user_id\<close> of the row that \<open>select_single\<close> returned on this world; the
  remaining arguments (nonce, clocks, faults of later calls, hash) do not enter the result.
\<close>

theorem non_owner_is_forbidden:
  assumes "select_single f_lookup (\<lambda>r. transaction_id r = tid) (transactions w) = Data t"
      and "user_id t \<noteq> uid u" and "tid \<noteq> []"
      and "authenticate getUser f_auth h = Inr u"
  shows "generate_confirmation sha256 e f_lookup f_update t_sign t_store nonce u (Some tid) w
           = (Response 403 (JsonError ''Forbidden''), w)
       \<and> route_generate_confirmation getUser sha256 e f_auth f_lookup f_update t_sign t_store nonce
             h (Some tid) w
           = (Response 403 (JsonError ''Forbidden''), w)
       \<and> upload_proof f_lookup f_storage f_update now u (Some tid) (Some file) w
           = (Response 403 (JsonError ''Forbidden''), w)
       \<and> upload_proof f_lookup f_storage f_update now u (Some tid) None w
           = (Response 400 (JsonError ''transactionId and file are required''), w)
       \<and> (\<forall>part. route_upload_proof getUser f_auth f_lookup f_storage f_update now h (Some tid) part w
             = (case upload_single part of
                  Inl err \<Rightarrow> (error_middleware err, w)
                | Inr None \<Rightarrow> (Response 400 (JsonError ''transactionId and file are required''), w)
                | Inr (Some fl) \<Rightarrow> (Response 403 (JsonError ''Forbidden''), w)))"
proof -
  have g: "generate_confirmation sha256 e f_lookup f_update t_sign t_store nonce u (Some tid) w
           = (Response 403 (JsonError ''Forbidden''), w)"
    using assms(1,2,3) by (simp add: generate_confirmation_def)
  have u: "\<And>fl. upload_proof f_lookup f_storage f_update now u (Some tid) (Some fl) w
           = (Response 403 (JsonError ''Forbidden''), w)"
    using assms(1,2,3) by (simp add: upload_proof_def)
  have n: "upload_proof f_lookup f_storage f_update now u (Some tid) None w
           = (Response 400 (JsonError ''transactionId and file are required''), w)"
    by (simp add: upload_proof_def)
  have r: "route_generate_confirmation getUser sha256 e f_auth f_lookup f_update t_sign t_store nonce
             h (Some tid) w = (Response 403 (JsonError ''Forbidden''), w)"
    using g assms(4) by (simp add: route_generate_confirmation_def)
  have p: "\<And>part. route_upload_proof getUser f_auth f_lookup f_storage f_update now h (Some tid) part w
             = (case upload_single part of
                  Inl err \<Rightarrow> (error_middleware err, w)
                | Inr None \<Rightarrow> (Response 400 (JsonError ''transactionId and file are required''), w)
                | Inr (Some fl) \<Rightarrow> (Response 403 (JsonError ''Forbidden''), w))"
    using u n assms(4) by (simp add: route_upload_proof_def split: sum.splits option.splits)
  show ?thesis
    using g r u n p by simp
qed

text \<open>Bob asking for Alice's transaction \<open>t1\<close>.\<close>

theorem non_owner_is_forbidden_witness:
  "generate_confirmation digest0 env0 Healthy Healthy 0 0 ''n1'' bob (Some ''t1'') world0
     = (Response 403 (JsonError ''Forbidden''), world0)
   \<and> route_upload_proof getUser0 Healthy Healthy Healthy Healthy 17 (Some ''Bearer tok-bob'')
        (Some ''t1'') (Some scan0) world0
     = (Response 403 (JsonError ''Forbidden''), world0)"
proof -
  have a: "user_id tx1 \<noteq> uid bob" "''t1'' \<noteq> []"
    by (simp_all add: tx1_def bob_def)
  note th = non_owner_is_forbidden [OF lookup_tx1 a authenticate_bob]
  have g: "generate_confirmation digest0 env0 Healthy Healthy 0 0 ''n1'' bob (Some ''t1'') world0
     = (Response 403 (JsonError ''Forbidden''), world0)"
    by (rule th [THEN conjunct1])
  have p: "route_upload_proof getUser0 Healthy Healthy Healthy Healthy 17 (Some ''Bearer tok-bob'')
        (Some ''t1'') (Some scan0) world0
     = (case upload_single (Some scan0) of
          Inl err \<Rightarrow> (error_middleware err, world0)
        | Inr None \<Rightarrow> (Response 400 (JsonError ''transactionId and file are required''), world0)
        | Inr (Some fl) \<Rightarrow> (Response 403 (JsonError ''Forbidden''), world0))"
    by (rule th [THEN conjunct2, THEN conjunct2, THEN conjunct2, THEN conjunct2, THEN spec])
  have "upload_single (Some scan0) = Inr (Some scan0)"
    by (simp add: upload_single_def fileFilter_def ALLOWED_MIME_TYPES_def scan0_def)
  then show ?thesis
    using g p by simp
qed

text \<open>
  Claim C1 as stated fails on the request body: Bob's upload for Alice's transaction
  without a file, or with a shell script, is answered 400, not 403.
\<close>

theorem non_owner_upload_rejected_with_400:
  "authenticate getUser0 Healthy (Some ''Bearer tok-bob'') = Inr bob
   \<and> transactions world0 = [tx1] \<and> transaction_id tx1 = ''t1''
   \<and> user_id tx1 \<noteq> uid bob
   \<and> route_upload_proof getUser0 Healthy Healthy Healthy Healthy 17 (Some ''Bearer tok-bob'')
        (Some ''t1'') None world0
     = (Response 400 (JsonError ''transactionId and file are required''), world0)
   \<and> route_upload_proof getUser0 Healthy Healthy Healthy Healthy 17 (Some ''Bearer tok-bob'')
        (Some ''t1'') (Some script0) world0
     = (Response 400 (JsonError ''Invalid file type. Only PDF, JPEG, and PNG are allowed.''), world0)"
proof (intro conjI)
  show "authenticate getUser0 Healthy (Some ''Bearer tok-bob'') = Inr bob"
    by (rule authenticate_bob)
  show "transactions world0 = [tx1]"
    by (simp add: world0_def)
  show "transaction_id tx1 = ''t1''"
    by (simp add: tx1_def)
  show "user_id tx1 \<noteq> uid bob"
    by (simp add: tx1_def bob_def)
  show "route_upload_proof getUser0 Healthy Healthy Healthy Healthy 17 (Some ''Bearer tok-bob'')
        (Some ''t1'') None world0
     = (Response 400 (JsonError ''transactionId and file are required''), world0)"
    by (simp add: route_upload_proof_def authenticate_bob upload_single_def upload_proof_def)
  show "route_upload_proof getUser0 Healthy Healthy Healthy Healthy 17 (Some ''Bearer tok-bob'')
        (Some ''t1'') (Some script0) world0
     = (Response 400 (JsonError ''Invalid file type. Only PDF, JPEG, and PNG are allowed.''), world0)"
    by (simp add: route_upload_proof_def authenticate_bob upload_single_def fileFilter_def
          ALLOWED_MIME_TYPES_def script0_def)
qed

text \<open>
  server.js has no comparison with the caller: Bob obtains a token for Alice's transaction,
  and the row is rewritten.
\<close>

lemma server_js_non_owner_mints:
  "user_id tx1 \<noteq> uid bob
   \<and> generate_confirmation_server_js digest0 env0 Healthy Healthy 0 0 ''n1'' bob (Some ''t1'') world0
       = (Response 200 (JsonConfirmationLink ''http://localhost:3000/confirm?token='' token0), world1)"
  by (simp add: generate_confirmation_server_js_def select_single_def mint_def jwt_sign_def
        update_where_def world0_def world1_def tx1_def env0_def bob_def token0_def)

subsection \<open>Upload guard\<close>

text \<open>
  The guard of part_000, for an authenticated caller: a declared type outside the list is
  refused with 400 first; an allowed type above 5 MiB is refused with 400. Neither reaches
  the handler, so the world is unchanged.
\<close>

lemma upload_guard_rejects:
  assumes "authenticate getUser f_auth h = Inr u"
  shows "mimetype file \<notin> set ALLOWED_MIME_TYPES \<Longrightarrow>
         route_upload_proof getUser f_auth f_lookup f_storage f_update now h tid (Some file) w
           = (Response 400 (JsonError ''Invalid file type. Only PDF, JPEG, and PNG are allowed.''), w)"
    and "mimetype file \<in> set ALLOWED_MIME_TYPES \<Longrightarrow> size_bytes file > 5 * 1024 * 1024 \<Longrightarrow>
         route_upload_proof getUser f_auth f_lookup f_storage f_update now h tid (Some file) w
           = (Response 400 (JsonError ''File too large. Max size is 5MB.''), w)"
  using assms by (simp_all add: route_upload_proof_def upload_single_def fileFilter_def)

text \<open>
  Claim C7 on server.js: its multer has neither \<^verbatim>\<open>limits\<close> nor \<^verbatim>\<open>fileFilter\<close>. A 6 MiB
  PDF and a shell script are both stored and written to the row, where the route of
  part_000 answers 400 to the same requests.
\<close>

theorem server_js_accepts_any_upload:
  "route_upload_proof_server_js getUser0 Healthy Healthy Healthy 17 (Some ''Bearer tok-alice'')
        (Some ''t1'') (Some big0) world0
     = (Response 200 (JsonMessage ''Proof uploaded successfully''),
        \<lparr>transactions = [tx1\<lparr>proof_files_urls := Some (''t1'', 17, ''big.pdf'')\<rparr>],
         proof_files = [((''t1'', 17, ''big.pdf''), big0)]\<rparr>)
   \<and> route_upload_proof_server_js getUser0 Healthy Healthy Healthy 17 (Some ''Bearer tok-alice'')
        (Some ''t1'') (Some script0) world0
     = (Response 200 (JsonMessage ''Proof uploaded successfully''),
        \<lparr>transactions = [tx1\<lparr>proof_files_urls := Some (''t1'', 17, ''run.sh'')\<rparr>],
         proof_files = [((''t1'', 17, ''run.sh''), script0)]\<rparr>)
   \<and> route_upload_proof getUser0 Healthy Healthy Healthy Healthy 17 (Some ''Bearer tok-alice'')
        (Some ''t1'') (Some big0) world0
     = (Response 400 (JsonError ''File too large. Max size is 5MB.''), world0)
   \<and> route_upload_proof getUser0 Healthy Healthy Healthy Healthy 17 (Some ''Bearer tok-alice'')
        (Some ''t1'') (Some script0) world0
     = (Response 400 (JsonError ''Invalid file type. Only PDF, JPEG, and PNG are allowed.''), world0)"
proof (intro conjI)
  show "route_upload_proof_server_js getUser0 Healthy Healthy Healthy 17 (Some ''Bearer tok-alice'')
        (Some ''t1'') (Some big0) world0
     = (Response 200 (JsonMessage ''Proof uploaded successfully''),
        \<lparr>transactions = [tx1\<lparr>proof_files_urls := Some (''t1'', 17, ''big.pdf'')\<rparr>],
         proof_files = [((''t1'', 17, ''big.pdf''), big0)]\<rparr>)"
    by (simp add: route_upload_proof_server_js_def authenticate_alice upload_single_server_js_def
          upload_proof_server_js_def upload_proof_store_def storage_upload_def update_where_def
          world0_def tx1_def big0_def Let_def)
  show "route_upload_proof_server_js getUser0 Healthy Healthy Healthy 17 (Some ''Bearer tok-alice'')
        (Some ''t1'') (Some script0) world0
     = (Response 200 (JsonMessage ''Proof uploaded successfully''),
        \<lparr>transactions = [tx1\<lparr>proof_files_urls := Some (''t1'', 17, ''run.sh'')\<rparr>],
         proof_files = [((''t1'', 17, ''run.sh''), script0)]\<rparr>)"
    by (simp add: route_upload_proof_server_js_def authenticate_alice upload_single_server_js_def
          upload_proof_server_js_def upload_proof_store_def storage_upload_def update_where_def
          world0_def tx1_def script0_def Let_def)
  show "route_upload_proof getUser0 Healthy Healthy Healthy Healthy 17 (Some ''Bearer tok-alice'')
        (Some ''t1'') (Some big0) world0
     = (Response 400 (JsonError ''File too large. Max size is 5MB.''), world0)"
    by (simp add: route_upload_proof_def authenticate_alice upload_single_def fileFilter_def
          ALLOWED_MIME_TYPES_def big0_def)
  show "route_upload_proof getUser0 Healthy Healthy Healthy Healthy 17 (Some ''Bearer tok-alice'')
        (Some ''t1'') (Some script0) world0
     = (Response 400 (JsonError ''Invalid file type. Only PDF, JPEG, and PNG are allowed.''), world0)"
    by (simp add: route_upload_proof_def authenticate_alice upload_single_def fileFilter_def
          ALLOWED_MIME_TYPES_def script0_def)
qed

subsection \<open>Start-up and the link\<close>

text \<open>
  part_000: a missing value ends the process with code 1, and a process that listens
  issues links that begin with \<^verbatim>\<open>https://\<close>.
\<close>

lemma startup_exits_when_absent:
  "absent (SUPABASE_URL e) \<or> absent (SUPABASE_SERVICE_ROLE_KEY e) \<or> absent (JWT_SECRET e)
     \<or> absent (CONFIRM_BASE_URL e) \<Longrightarrow> startup e = Exited 1"
  by (auto simp: startup_def)

lemma startup_listening:
  "startup e = Listening \<Longrightarrow>
   \<not> absent (SUPABASE_URL e) \<and> \<not> absent (SUPABASE_SERVICE_ROLE_KEY e) \<and> \<not> absent (JWT_SECRET e)
     \<and> (\<exists>b. CONFIRM_BASE_URL e = Some b \<and> startsWith b ''https://'')"
  by (auto simp: startup_def split: if_splits option.splits)

lemma startsWith_append: "startsWith b p \<Longrightarrow> startsWith (b @ s) p"
proof -
  assume "startsWith b p"
  then have h: "take (length p) b = p"
    by (simp add: startsWith_def)
  have "length (take (length p) b) = min (length b) (length p)"
    by simp
  with h have "length p \<le> length b"
    by simp
  with h show ?thesis
    by (simp add: startsWith_def)
qed

lemma mint_link:
  "mint sha256 secret f_update t_sign t_store nonce tid base w
     = (Response 200 (JsonConfirmationLink l tok), w') \<Longrightarrow> l = base @ ''/confirm?token=''"
  by (auto simp: mint_def server_error_def Let_def split: option.splits prod.splits reply.splits if_splits)

lemma issued_links_use_https:
  assumes "startup e = Listening"
      and "generate_confirmation sha256 e f_lookup f_update t_sign t_store nonce u tid w
             = (Response 200 (JsonConfirmationLink l tok), w')"
  shows "startsWith l ''https://''"
proof -
  obtain b where b: "CONFIRM_BASE_URL e = Some b" "startsWith b ''https://''"
    using startup_listening [OF assms(1)] by blast
  have "mint sha256 (JWT_SECRET e) f_update t_sign t_store nonce (the tid) (link_base e) w
          = (Response 200 (JsonConfirmationLink l tok), w')"
    using assms(2)
    by (auto simp: generate_confirmation_def server_error_def split: option.splits if_splits reply.splits)
  then have "l = link_base e @ ''/confirm?token=''"
    by (rule mint_link)
  then show ?thesis
    using b by (simp add: link_base_def startsWith_append)
qed

text \<open>
  Claim C8 on server.js: without signing secret and base URL it still listens (part_000
  exits with 1 on the same environment), and with a complete environment the link it issues
  begins with \<^verbatim>\<open>http://localhost:3000\<close>.
\<close>

theorem server_js_starts_unvalidated_and_links_http:
  "startup_server_js (env0\<lparr>JWT_SECRET := None, CONFIRM_BASE_URL := None\<rparr>) = Listening
   \<and> startup (env0\<lparr>JWT_SECRET := None, CONFIRM_BASE_URL := None\<rparr>) = Exited 1
   \<and> startup env0 = Listening
   \<and> fst (generate_confirmation_server_js digest0 env0 Healthy Healthy 0 0 ''n1'' alice (Some ''t1'') world0)
       = Response 200 (JsonConfirmationLink ''http://localhost:3000/confirm?token='' token0)
   \<and> \<not> startsWith ''http://localhost:3000/confirm?token='' ''https://''"
proof (intro conjI)
  show "startup_server_js (env0\<lparr>JWT_SECRET := None, CONFIRM_BASE_URL := None\<rparr>) = Listening"
    by (simp add: startup_server_js_def env0_def)
  show "startup (env0\<lparr>JWT_SECRET := None, CONFIRM_BASE_URL := None\<rparr>) = Exited 1"
    by (simp add: startup_def env0_def)
  show "startup env0 = Listening"
    by (simp add: startup_def env0_def startsWith_def)
  show "fst (generate_confirmation_server_js digest0 env0 Healthy Healthy 0 0 ''n1'' alice (Some ''t1'') world0)
       = Response 200 (JsonConfirmationLink ''http://localhost:3000/confirm?token='' token0)"
    by (simp add: generate_confirmation_server_js_def select_single_def mint_def jwt_sign_def
          update_where_def world0_def tx1_def env0_def token0_def)
  show "\<not> startsWith ''http://localhost:3000/confirm?token='' ''https://''"
    by (simp add: startsWith_def)
qed

subsection \<open>The unchecked row update of /upload-proof\<close>

text \<open>
  Claim C10, as amended. Once the request is accepted (row found and owned by the
  caller), the answer is fixed by the byte-storage step and by whether the row update
  throws: when the bytes are stored and the update returns, with or without an error
  result, the answer is 200 \<open>Proof uploaded successfully\<close>, since the reply of the update is
  never inspected; when the bytes are stored and the update throws, the \<^verbatim>\<open>catch\<close> answers
  500 \<open>Server error\<close>; when the byte storage returns an error the answer is 500
  \<open>Upload failed\<close>, and when it throws 500 \<open>Server error\<close>. With an update that returns an
  error or throws, the table is as it was and only the bucket has changed. The handler of
  server.js computes the same.
\<close>

theorem upload_row_update_error_unchecked:
  assumes "select_single f_lookup (\<lambda>r. transaction_id r = tid) (transactions w) = Data t"
      and "user_id t = uid u" and "tid \<noteq> []"
  shows "fst (upload_proof f_lookup f_storage f_update now u (Some tid) (Some file) w) =
           (case storage_upload f_storage (tid, now, originalname file) file (proof_files w) of
              Data files \<Rightarrow>
                if f_update = Rejecting then Response 500 (JsonError ''Server error'')
                else Response 200 (JsonMessage ''Proof uploaded successfully'')
            | Error m \<Rightarrow> Response 500 (JsonError ''Upload failed'')
            | Thrown \<Rightarrow> Response 500 (JsonError ''Server error''))
       \<and> (\<forall>m files. f_update = Failing m
              \<and> storage_upload f_storage (tid, now, originalname file) file (proof_files w) = Data files
              \<longrightarrow> upload_proof f_lookup f_storage f_update now u (Some tid) (Some file) w
                    = (Response 200 (JsonMessage ''Proof uploaded successfully''),
                       w\<lparr>proof_files := files\<rparr>))
       \<and> (\<forall>files. f_update = Rejecting
              \<and> storage_upload f_storage (tid, now, originalname file) file (proof_files w) = Data files
              \<longrightarrow> upload_proof f_lookup f_storage f_update now u (Some tid) (Some file) w
                    = (Response 500 (JsonError ''Server error''), w\<lparr>proof_files := files\<rparr>))
       \<and> upload_proof_server_js f_storage f_update now u (Some tid) (Some file) w
           = upload_proof f_lookup f_storage f_update now u (Some tid) (Some file) w"
proof -
  have s: "upload_proof f_lookup f_storage f_update now u (Some tid) (Some file) w
             = upload_proof_store f_storage f_update now tid file w"
    using assms(1,2,3) by (simp add: upload_proof_def)
  have j: "upload_proof_server_js f_storage f_update now u (Some tid) (Some file) w
             = upload_proof_store f_storage f_update now tid file w"
    using assms(3) by (simp add: upload_proof_server_js_def)
  have a: "fst (upload_proof_store f_storage f_update now tid file w) =
           (case storage_upload f_storage (tid, now, originalname file) file (proof_files w) of
              Data files \<Rightarrow>
                if f_update = Rejecting then Response 500 (JsonError ''Server error'')
                else Response 200 (JsonMessage ''Proof uploaded successfully'')
            | Error m \<Rightarrow> Response 500 (JsonError ''Upload failed'')
            | Thrown \<Rightarrow> Response 500 (JsonError ''Server error''))"
    by (cases f_update)
       (simp_all add: upload_proof_store_def update_where_def server_error_def Let_def
          split: reply.splits)
  have b: "\<And>m files. f_update = Failing m \<Longrightarrow>
              storage_upload f_storage (tid, now, originalname file) file (proof_files w) = Data files
              \<Longrightarrow> upload_proof_store f_storage f_update now tid file w
                    = (Response 200 (JsonMessage ''Proof uploaded successfully''),
                       w\<lparr>proof_files := files\<rparr>)"
    by (simp add: upload_proof_store_def update_where_def Let_def)
  have c: "\<And>files. f_update = Rejecting \<Longrightarrow>
              storage_upload f_storage (tid, now, originalname file) file (proof_files w) = Data files
              \<Longrightarrow> upload_proof_store f_storage f_update now tid file w
                    = (Response 500 (JsonError ''Server error''), w\<lparr>proof_files := files\<rparr>)"
    by (simp add: upload_proof_store_def update_where_def server_error_def Let_def)
  show ?thesis
    unfolding s j using a b c by simp
qed

text \<open>Alice's upload with a row update that returns an error, and with one that throws.\<close>

theorem upload_row_update_error_unchecked_witness:
  "upload_proof Healthy Healthy (Failing ''timeout'') 17 alice (Some ''t1'') (Some scan0) world0
     = (Response 200 (JsonMessage ''Proof uploaded successfully''),
        world0\<lparr>proof_files := [((''t1'', 17, ''scan.pdf''), scan0)]\<rparr>)
   \<and> upload_proof Healthy Healthy Rejecting 17 alice (Some ''t1'') (Some scan0) world0
     = (Response 500 (JsonError ''Server error''),
        world0\<lparr>proof_files := [((''t1'', 17, ''scan.pdf''), scan0)]\<rparr>)"
proof -
  have a: "user_id tx1 = uid alice" "''t1'' \<noteq> []"
    by (simp_all add: tx1_def alice_def)
  have b: "storage_upload Healthy (''t1'', 17, originalname scan0) scan0 (proof_files world0)
             = Data [((''t1'', 17, ''scan.pdf''), scan0)]"
    by (simp add: storage_upload_def world0_def scan0_def)
  note th = upload_row_update_error_unchecked [OF lookup_tx1 a]
  have "Failing ''timeout'' = Failing ''timeout''
          \<and> storage_upload Healthy (''t1'', 17, originalname scan0) scan0 (proof_files world0)
              = Data [((''t1'', 17, ''scan.pdf''), scan0)]
        \<longrightarrow> upload_proof Healthy Healthy (Failing ''timeout'') 17 alice (Some ''t1'') (Some scan0) world0
              = (Response 200 (JsonMessage ''Proof uploaded successfully''),
                 world0\<lparr>proof_files := [((''t1'', 17, ''scan.pdf''), scan0)]\<rparr>)"
    by (rule th [THEN conjunct2, THEN conjunct1, THEN spec, THEN spec])
  moreover have "Rejecting = Rejecting
          \<and> storage_upload Healthy (''t1'', 17, originalname scan0) scan0 (proof_files world0)
              = Data [((''t1'', 17, ''scan.pdf''), scan0)]
        \<longrightarrow> upload_proof Healthy Healthy Rejecting 17 alice (Some ''t1'') (Some scan0) world0
              = (Response 500 (JsonError ''Server error''),
                 world0\<lparr>proof_files := [((''t1'', 17, ''scan.pdf''), scan0)]\<rparr>)"
    by (rule th [THEN conjunct2, THEN conjunct2, THEN conjunct1, THEN spec])
  ultimately show ?thesis
    using b by simp
qed

text \<open>
  Claim C10 as stated fails on its last clause: the byte storage succeeds, the row update
  throws, and the answer is an error response.
\<close>

theorem upload_rejected_update_answers_500:
  "storage_upload Healthy (''t1'', 17, ''scan.pdf'') scan0 (proof_files world0)
     = Data [((''t1'', 17, ''scan.pdf''), scan0)]
   \<and> upload_proof Healthy Healthy Rejecting 17 alice (Some ''t1'') (Some scan0) world0
     = (Response 500 (JsonError ''Server error''),
        world0\<lparr>proof_files := [((''t1'', 17, ''scan.pdf''), scan0)]\<rparr>)"
  by (simp add: upload_proof_def select_single_def upload_proof_store_def storage_upload_def
        update_where_def server_error_def Let_def world0_def tx1_def alice_def scan0_def)

subsection \<open>Faults of the collaborators\<close>







end
